theory Spec2Isabelle
  imports Complex_Main
begin

section \<open>JavaScript strings\<close>

text \<open>
  A JavaScript string is modelled as a \<^typ>\<open>string\<close>; \<open>length\<close> is the source's
  \<open>.length\<close>.  The helpers below are the \<open>String.prototype\<close> methods the sources call.
\<close>

definition startsWith :: "string \<Rightarrow> string \<Rightarrow> bool" where
  "startsWith s p = (take (length p) s = p)"

definition endsWith :: "string \<Rightarrow> string \<Rightarrow> bool" where
  "endsWith s p = startsWith (rev s) (rev p)"

text \<open>\<open>s.includes(p)\<close>: \<open>p\<close> occurs in \<open>s\<close>.\<close>

fun includes_str :: "string \<Rightarrow> string \<Rightarrow> bool" where
  "includes_str [] p = (p = [])"
| "includes_str (c # s) p = (startsWith (c # s) p \<or> includes_str s p)"

text \<open>\<open>s.slice(0, -1)\<close>: everything but the last character (the empty string stays empty).\<close>

definition slice_0_minus1 :: "string \<Rightarrow> string" where
  "slice_0_minus1 s = butlast s"

text \<open>
  \<open>s.trim()\<close> removes white space and line terminators from both ends: tab, line feed,
  vertical tab, form feed, carriage return, space and the no-break space U+00A0.  The others
  (U+FEFF, the Unicode space separators, U+2028, U+2029) are beyond the 256 characters of
  \<^typ>\<open>char\<close>.
\<close>

definition isWhiteSpace :: "char \<Rightarrow> bool" where
  "isWhiteSpace c =
     (c \<in> {CHR '' '', CHR 0x09, CHR 0x0A, CHR 0x0B, CHR 0x0C, CHR 0x0D, CHR 0xA0})"

definition trim :: "string \<Rightarrow> string" where
  "trim s = rev (dropWhile isWhiteSpace (rev (dropWhile isWhiteSpace s)))"

text \<open>\<open>s.toLowerCase()\<close>, on ASCII letters.\<close>

definition toLowerChar :: "char \<Rightarrow> char" where
  "toLowerChar c =
     (if (65::nat) \<le> of_char c \<and> of_char c \<le> (90::nat) then char_of (of_char c + (32::nat)) else c)"

definition toLowerCase :: "string \<Rightarrow> string" where
  "toLowerCase s = map toLowerChar s"

section \<open>Shared types (shared/types.ts)\<close>

datatype IssueType = error | warning

record Issue =
  type :: IssueType
  code :: string
  title :: string
  description :: string
  urls :: "string list"
  count :: nat

record OgTags =
  title :: "string option"
  description :: "string option"
  image :: "string option"

record Images =
  total :: nat
  withoutAlt :: nat

record PageData =
  url :: string
  statusCode :: int
  responseTime :: int
  title :: "string option"
  metaDescription :: "string option"
  h1Tags :: "string list"
  h1Count :: nat
  hasCanonical :: bool
  canonicalUrl :: "string option"
  hasViewport :: bool
  hasRobotsMeta :: bool
  robotsContent :: "string option"
  ogTags :: OgTags
  images :: Images
  textToHtmlRatio :: rat
  pageSize :: nat
  internalLinks :: "string list"
  externalLinks :: "string list"
  issues :: "Issue list"

record CrawledPages =
  total :: nat
  healthy :: nat
  withIssues :: nat
  redirects :: nat
  broken :: nat

subsection \<open>Issue codes and the issue taxonomy\<close>

definition BROKEN_INTERNAL_LINK :: string where "BROKEN_INTERNAL_LINK = ''broken_internal_link''"
definition BROKEN_EXTERNAL_LINK :: string where "BROKEN_EXTERNAL_LINK = ''broken_external_link''"
definition SERVER_ERROR :: string where "SERVER_ERROR = ''server_error_5xx''"
definition MISSING_TITLE :: string where "MISSING_TITLE = ''missing_title''"
definition REDIRECT_CHAIN :: string where "REDIRECT_CHAIN = ''redirect_chain''"
definition REDIRECT_LOOP :: string where "REDIRECT_LOOP = ''redirect_loop''"

definition MISSING_META_DESCRIPTION :: string where
  "MISSING_META_DESCRIPTION = ''missing_meta_description''"
definition MISSING_H1 :: string where "MISSING_H1 = ''missing_h1''"
definition MULTIPLE_H1 :: string where "MULTIPLE_H1 = ''multiple_h1''"
definition LOW_TEXT_HTML_RATIO :: string where "LOW_TEXT_HTML_RATIO = ''low_text_html_ratio''"
definition TITLE_TOO_LONG :: string where "TITLE_TOO_LONG = ''title_too_long''"
definition TITLE_TOO_SHORT :: string where "TITLE_TOO_SHORT = ''title_too_short''"
definition META_DESCRIPTION_TOO_LONG :: string where
  "META_DESCRIPTION_TOO_LONG = ''meta_description_too_long''"
definition META_DESCRIPTION_TOO_SHORT :: string where
  "META_DESCRIPTION_TOO_SHORT = ''meta_description_too_short''"
definition MISSING_CANONICAL :: string where "MISSING_CANONICAL = ''missing_canonical''"
definition MISSING_VIEWPORT :: string where "MISSING_VIEWPORT = ''missing_viewport''"
definition MISSING_ALT_TEXT :: string where "MISSING_ALT_TEXT = ''missing_alt_text''"
definition LARGE_PAGE_SIZE :: string where "LARGE_PAGE_SIZE = ''large_page_size''"
definition SLOW_RESPONSE :: string where "SLOW_RESPONSE = ''slow_response''"
definition ORPHAN_PAGE :: string where "ORPHAN_PAGE = ''orphan_page''"
definition MISSING_OG_TAGS :: string where "MISSING_OG_TAGS = ''missing_og_tags''"
definition MISSING_ROBOTS_META :: string where "MISSING_ROBOTS_META = ''missing_robots_meta''"

text \<open>\<open>ISSUE_DEFINITIONS\<close>: code \<open>\<mapsto>\<close> (title, description, type), in the order of the table.\<close>

definition ISSUE_DEFINITIONS :: "(string \<times> (string \<times> string \<times> IssueType)) list" where
  "ISSUE_DEFINITIONS =
   [(BROKEN_INTERNAL_LINK,
       (''Broken internal links'', ''Internal links returning 4XX status codes'', error)),
    (BROKEN_EXTERNAL_LINK,
       (''Broken external links'', ''External links returning 4XX or 5XX status codes'', error)),
    (SERVER_ERROR,
       (''Pages with server errors'', ''Pages returning 5XX status codes'', error)),
    (MISSING_TITLE,
       (''Pages missing title tag'', ''Pages without a title tag or with empty title'', error)),
    (REDIRECT_CHAIN,
       (''Redirect chains detected'', ''URLs with 3 or more redirect hops'', error)),
    (REDIRECT_LOOP,
       (''Redirect loops detected'', ''URLs with circular redirects'', error)),
    (MISSING_META_DESCRIPTION,
       (''Pages missing meta description'', ''Pages without a meta description tag'', warning)),
    (MISSING_H1,
       (''Pages missing H1 heading'', ''Pages without an H1 heading tag'', warning)),
    (MULTIPLE_H1,
       (''Pages with multiple H1 tags'', ''Pages with more than one H1 heading'', warning)),
    (LOW_TEXT_HTML_RATIO,
       (''Pages with low text-to-HTML ratio'', ''Pages with less than 10% text content'', warning)),
    (TITLE_TOO_LONG,
       (''Title tags too long'', ''Title tags exceeding 60 characters'', warning)),
    (TITLE_TOO_SHORT,
       (''Title tags too short'', ''Title tags shorter than 30 characters'', warning)),
    (META_DESCRIPTION_TOO_LONG,
       (''Meta descriptions too long'', ''Meta descriptions exceeding 160 characters'', warning)),
    (META_DESCRIPTION_TOO_SHORT,
       (''Meta descriptions too short'', ''Meta descriptions shorter than 70 characters'', warning)),
    (MISSING_CANONICAL,
       (''Pages missing canonical tag'', ''Pages without a canonical URL specified'', warning)),
    (MISSING_VIEWPORT,
       (''Pages missing viewport meta tag'',
        ''Pages without viewport meta for mobile responsiveness'', warning)),
    (MISSING_ALT_TEXT,
       (''Images missing alt text'', ''Pages with images lacking alt attributes'', warning)),
    (LARGE_PAGE_SIZE,
       (''Large page size'', ''Pages larger than 3MB'', warning)),
    (SLOW_RESPONSE,
       (''Slow page response time'', ''Pages taking more than 3 seconds to respond'', warning)),
    (ORPHAN_PAGE,
       (''Orphan pages detected'', ''Pages not linked from any other crawled page'', warning)),
    (MISSING_OG_TAGS,
       (''Missing Open Graph tags'', ''Pages without OG tags for social sharing'', warning)),
    (MISSING_ROBOTS_META,
       (''Missing robots meta tag'', ''Pages without robots meta tag'', warning))]"

section \<open>The platform's URL class\<close>

text \<open>
  The sources parse and serialise URLs with the platform's WHATWG \<open>URL\<close> class.  A parsed URL is
  a record of the components the sources read or write; the class itself is a parameter of
  every function that uses it: the two constructors (\<open>None\<close> when the constructor throws) and
  the \<open>href\<close> getter.  \<open>searchParams\<close> is the list of name-value pairs of the query; \<open>hash\<close> is
  empty or starts with \<open>#\<close>.
\<close>

record URL =
  protocol :: string
  username :: string
  password :: string
  hostname :: string
  port :: string
  pathname :: string
  searchParams :: "(string \<times> string) list"
  hash :: string

record UrlLib =
  URL_new :: "string \<Rightarrow> URL option"
  URL_new_base :: "string \<Rightarrow> string \<Rightarrow> URL option"
  href :: "URL \<Rightarrow> string"

text \<open>\<open>parsed.searchParams.delete(param)\<close>: every pair of that name goes.\<close>

definition searchParams_delete :: "URL \<Rightarrow> string \<Rightarrow> URL" where
  "searchParams_delete parsed param =
     parsed\<lparr>searchParams := filter (\<lambda>kv. fst kv \<noteq> param) (searchParams parsed)\<rparr>"

section \<open>Helpers (utils/helpers.ts)\<close>

subsection \<open>Site health score\<close>





subsection \<open>Crawled pages breakdown\<close>

text \<open>
  The four counters of the loop, in the order \<open>(healthy, withIssues, redirects, broken)\<close>, and
  the loop body.
\<close>

type_synonym counters = "nat \<times> nat \<times> nat \<times> nat"

fun breakdown_step :: "counters \<Rightarrow> PageData \<Rightarrow> counters" where
  "breakdown_step (healthy', withIssues', redirects', broken') page =
     (let statusCode' = PageData.statusCode page in
      if statusCode' \<ge> 300 \<and> statusCode' < 400 then (healthy', withIssues', redirects' + 1, broken')
      else if statusCode' \<ge> 400 then (healthy', withIssues', redirects', broken' + 1)
      else if length (issues page) > 0 then (healthy', withIssues' + 1, redirects', broken')
      else (healthy' + 1, withIssues', redirects', broken'))"

definition calculateCrawledPagesBreakdown :: "PageData list \<Rightarrow> CrawledPages" where
  "calculateCrawledPagesBreakdown pages =
     (case foldl breakdown_step (0, 0, 0, 0) pages of
        (healthy', withIssues', redirects', broken') \<Rightarrow>
          \<lparr>CrawledPages.total = length pages, healthy = healthy', withIssues = withIssues',
           redirects = redirects', broken = broken'\<rparr>)"

text \<open>Componentwise sum of the counters of the breakdown.\<close>

definition plus4 :: "counters \<Rightarrow> counters \<Rightarrow> counters" where
  "plus4 x y =
     (case x of (h, w, r, b) \<Rightarrow> case y of (h', w', r', b') \<Rightarrow> (h + h', w + w', r + r', b + b'))"

subsection \<open>URL helpers\<close>

definition normalizeUrl :: "string \<Rightarrow> string" where
  "normalizeUrl url' =
     (let normalized = trim url';
          normalized = (if \<not> startsWith normalized ''http://'' \<and> \<not> startsWith normalized ''https://''
                        then ''https://'' @ normalized else normalized)
      in if endsWith normalized ''/'' then slice_0_minus1 normalized else normalized)"

record Validation =
  valid :: bool
  error :: "string option"

definition validateUrl :: "UrlLib \<Rightarrow> string \<Rightarrow> Validation" where
  "validateUrl L url' =
     (case URL_new L url' of
        None \<Rightarrow> \<lparr>valid = False, error = Some ''Invalid URL format''\<rparr>
      | Some parsed \<Rightarrow>
          if protocol parsed \<notin> set [''http:'', ''https:'']
          then \<lparr>valid = False, error = Some ''Invalid protocol. Use http:// or https://''\<rparr>
          else
            let hostname' = toLowerCase (hostname parsed) in
            if hostname' = ''localhost'' \<or>
               hostname' = ''127.0.0.1'' \<or>
               startsWith hostname' ''192.168.'' \<or>
               startsWith hostname' ''10.'' \<or>
               startsWith hostname' ''172.16.'' \<or>
               endsWith hostname' ''.local''
            then \<lparr>valid = False, error = Some ''Cannot audit localhost or private IP addresses''\<rparr>
            else if \<not> includes_str hostname' ''.''
            then \<lparr>valid = False, error = Some ''Invalid domain name''\<rparr>
            else \<lparr>valid = True, error = None\<rparr>)"

definition getBaseDomain :: "UrlLib \<Rightarrow> string \<Rightarrow> string" where
  "getBaseDomain L url' = (case URL_new L url' of Some parsed \<Rightarrow> hostname parsed | None \<Rightarrow> [])"

definition isInternalLink :: "UrlLib \<Rightarrow> string \<Rightarrow> string \<Rightarrow> bool" where
  "isInternalLink L baseUrl' linkUrl =
     (case URL_new L baseUrl' of
        None \<Rightarrow> False
      | Some base \<Rightarrow>
          (case URL_new_base L linkUrl baseUrl' of
             None \<Rightarrow> False
           | Some link \<Rightarrow> hostname base = hostname link))"

definition resolveUrl :: "UrlLib \<Rightarrow> string \<Rightarrow> string \<Rightarrow> string" where
  "resolveUrl L baseUrl' relativeUrl =
     (case URL_new_base L relativeUrl baseUrl' of Some u \<Rightarrow> href L u | None \<Rightarrow> [])"

definition paramsToRemove :: "string list" where
  "paramsToRemove =
     [''utm_source'', ''utm_medium'', ''utm_campaign'', ''utm_term'', ''utm_content'',
      ''fbclid'', ''gclid'']"

definition sanitizeUrlForCrawl :: "UrlLib \<Rightarrow> string \<Rightarrow> string" where
  "sanitizeUrlForCrawl L url' =
     (case URL_new L url' of
        None \<Rightarrow> url'
      | Some parsed \<Rightarrow> href L (foldl searchParams_delete (parsed\<lparr>hash := []\<rparr>) paramsToRemove))"

definition skipExtensions :: "string list" where
  "skipExtensions =
     [''.pdf'', ''.jpg'', ''.jpeg'', ''.png'', ''.gif'', ''.svg'', ''.webp'', ''.ico'',
      ''.mp4'', ''.webm'', ''.avi'', ''.mov'', ''.wmv'',
      ''.mp3'', ''.wav'', ''.ogg'',
      ''.zip'', ''.rar'', ''.tar'', ''.gz'',
      ''.doc'', ''.docx'', ''.xls'', ''.xlsx'', ''.ppt'', ''.pptx'',
      ''.css'', ''.js'', ''.json'', ''.xml'', ''.txt'']"

definition shouldCrawlUrl :: "UrlLib \<Rightarrow> string \<Rightarrow> bool" where
  "shouldCrawlUrl L url' =
     (case URL_new L url' of
        None \<Rightarrow> False
      | Some parsed \<Rightarrow>
          if protocol parsed \<notin> set [''http:'', ''https:''] then False
          else
            let pathname' = toLowerCase (pathname parsed) in
            if list_ex (\<lambda>ext. endsWith pathname' ext) skipExtensions then False
            else True)"

subsection \<open>Text to HTML ratio\<close>

text \<open>
  \<open>extractTextContent\<close> is four regular-expression replacements and a \<open>trim\<close>, run by the
  platform's regular-expression engine; its result is the parameter \<open>extractTextContent\<close>.  The
  ratio is a double in the source and an exact rational here.
\<close>

definition calculateTextToHtmlRatio :: "(string \<Rightarrow> string) \<Rightarrow> string \<Rightarrow> rat" where
  "calculateTextToHtmlRatio extractTextContent html' =
     (let text' = extractTextContent html' in
      if length html' = 0 then 0
      else (of_nat (length text') / of_nat (length html')) * 100)"

section \<open>Crawl results (services/crawler.ts)\<close>

record CrawlResult =
  url :: string
  statusCode :: int
  responseTime :: int
  html :: string
  headers :: "(string \<times> string) list"
  redirectChain :: "string list"
  error :: "string option"

section \<open>Page analyzer (services/analyzer.ts)\<close>

text \<open>
  The analyzer reads the page through a cheerio document.  A \<open>CheerioDoc\<close> holds the answers to
  the queries \<open>analyzePage\<close> and \<open>extractLinks\<close> make on the loaded document, and
  \<open>cheerio.load\<close> is a parameter \<open>load\<close> of both:
  \<^item> \<open>title_text\<close> is \<open>$('title').first().text()\<close>;
  \<^item> \<open>meta_description\<close>, \<open>meta_viewport\<close>, \<open>meta_robots\<close> are \<open>$('meta[name="..."]').attr('content')\<close>
    and \<open>og_title\<close>, \<open>og_description\<close>, \<open>og_image\<close> are \<open>$('meta[property="og:..."]').attr('content')\<close>
    (\<open>None\<close> for \<open>undefined\<close>);
  \<^item> \<open>h1_texts\<close> is \<open>$(el).text()\<close> for every element of \<open>$('h1')\<close>;
  \<^item> \<open>link_canonical\<close> is \<open>$('link[rel="canonical"]').attr('href')\<close>;
  \<^item> \<open>img_alts\<close> is \<open>$(img).attr('alt')\<close> for every element of \<open>$('img')\<close>;
  \<^item> \<open>a_hrefs\<close> is \<open>$(el).attr('href')\<close> for every element of \<open>$('a[href]')\<close>.
\<close>

record CheerioDoc =
  title_text :: string
  meta_description :: "string option"
  h1_texts :: "string list"
  link_canonical :: "string option"
  meta_viewport :: "string option"
  meta_robots :: "string option"
  og_title :: "string option"
  og_description :: "string option"
  og_image :: "string option"
  img_alts :: "string option list"
  a_hrefs :: "string list"

record AnalyzerConfig =
  checkExternalLinks :: bool
  externalLinkTimeout :: int

definition DEFAULT_ANALYZER_CONFIG :: AnalyzerConfig where
  "DEFAULT_ANALYZER_CONFIG = \<lparr>checkExternalLinks = True, externalLinkTimeout = 5000\<rparr>"

text \<open>\<open>x || null\<close> and \<open>!x\<close> on a string that may be \<open>undefined\<close>: the empty string is falsy.\<close>

definition orNull :: "string option \<Rightarrow> string option" where
  "orNull x = (case x of None \<Rightarrow> None | Some v \<Rightarrow> if v = [] then None else Some v)"

definition falsy :: "string option \<Rightarrow> bool" where
  "falsy x = (orNull x = None)"

definition createIssue :: "string \<Rightarrow> Issue" where
  "createIssue code' =
     (case map_of ISSUE_DEFINITIONS code' of
        None \<Rightarrow>
          \<lparr>type = warning, code = code', title = code', description = [], urls = [], count = 1\<rparr>
      | Some (title', description', type') \<Rightarrow>
          \<lparr>type = type', code = code', title = (if title' = [] then code' else title'),
           description = description', urls = [], count = 1\<rparr>)"

text \<open>\<open>if (c) issues.push(createIssue(code))\<close>.\<close>

definition pushIf :: "bool \<Rightarrow> string \<Rightarrow> Issue list \<Rightarrow> Issue list" where
  "pushIf c code' issues' = (if c then issues' @ [createIssue code'] else issues')"

text \<open>The page data \<open>analyzePage\<close> starts from, before any check has run.\<close>

definition basicPageData :: "CrawlResult \<Rightarrow> PageData" where
  "basicPageData result =
     \<lparr>PageData.url = CrawlResult.url result,
      statusCode = CrawlResult.statusCode result,
      responseTime = CrawlResult.responseTime result,
      title = None,
      metaDescription = None,
      h1Tags = [],
      h1Count = 0,
      hasCanonical = False,
      canonicalUrl = None,
      hasViewport = False,
      hasRobotsMeta = False,
      robotsContent = None,
      ogTags = \<lparr>OgTags.title = None, description = None, image = None\<rparr>,
      images = \<lparr>Images.total = 0, withoutAlt = 0\<rparr>,
      textToHtmlRatio = 0,
      pageSize = length (html result),
      internalLinks = [],
      externalLinks = [],
      issues = []\<rparr>"

text \<open>
  The body of the \<open>$('a[href]').each\<close> loop, on the pair \<open>(internalLinks, externalLinks)\<close>.
\<close>

definition classifyLink ::
  "UrlLib \<Rightarrow> string \<Rightarrow> string \<Rightarrow> string list \<times> string list \<Rightarrow> string \<Rightarrow> string list \<times> string list" where
  "classifyLink L baseUrl' pageUrl links href' =
     (if href' \<noteq> [] then
        let absoluteUrl = resolveUrl L pageUrl href' in
        if absoluteUrl \<noteq> [] then
          if isInternalLink L baseUrl' absoluteUrl then
            (if absoluteUrl \<notin> set (fst links) then (fst links @ [absoluteUrl], snd links) else links)
          else if startsWith absoluteUrl ''http'' then
            (if absoluteUrl \<notin> set (snd links) then (fst links, snd links @ [absoluteUrl]) else links)
          else links
        else links
      else links)"

text \<open>The checks that need markup: \<open>analyzePage\<close> from the title on.\<close>

definition analyzeMarkup ::
  "UrlLib \<Rightarrow> (string \<Rightarrow> string) \<Rightarrow> CheerioDoc \<Rightarrow> CrawlResult \<Rightarrow> string \<Rightarrow> PageData \<Rightarrow> Issue list
     \<Rightarrow> PageData" where
  "analyzeMarkup L extractTextContent doc result baseUrl' pageData issues0 =
     (let title' = trim (title_text doc);
          issues1 =
            (if title' = [] then pushIf True MISSING_TITLE issues0
             else pushIf (length title' < 30) TITLE_TOO_SHORT
                    (pushIf (length title' > 60) TITLE_TOO_LONG issues0));
          metaDescription' = orNull (map_option trim (meta_description doc));
          issues2 =
            (case metaDescription' of
               None \<Rightarrow> pushIf True MISSING_META_DESCRIPTION issues1
             | Some d \<Rightarrow>
                 pushIf (length d < 70) META_DESCRIPTION_TOO_SHORT
                   (pushIf (length d > 160) META_DESCRIPTION_TOO_LONG issues1));
          h1Count' = length (h1_texts doc);
          h1Tags' = filter (\<lambda>t. t \<noteq> []) (map trim (h1_texts doc));
          issues3 =
            (if h1Count' = 0 then pushIf True MISSING_H1 issues2
             else pushIf (h1Count' > 1) MULTIPLE_H1 issues2);
          canonical = link_canonical doc;
          issues4 = pushIf (falsy canonical) MISSING_CANONICAL issues3;
          viewport = meta_viewport doc;
          issues5 = pushIf (falsy viewport) MISSING_VIEWPORT issues4;
          robotsMeta = meta_robots doc;
          issues6 = pushIf (falsy robotsMeta) MISSING_ROBOTS_META issues5;
          ogTags' = \<lparr>OgTags.title = orNull (og_title doc),
                     description = orNull (og_description doc),
                     image = orNull (og_image doc)\<rparr>;
          issues7 =
            pushIf (OgTags.title ogTags' = None \<and> OgTags.description ogTags' = None
                    \<and> OgTags.image ogTags' = None) MISSING_OG_TAGS issues6;
          imagesWithoutAlt =
            length (filter (\<lambda>alt. alt = None \<or> alt = Some []) (img_alts doc));
          issues8 = pushIf (imagesWithoutAlt > 0) MISSING_ALT_TEXT issues7;
          ratio = calculateTextToHtmlRatio extractTextContent (html result);
          issues9 = pushIf (ratio < 10) LOW_TEXT_HTML_RATIO issues8;
          issues10 = pushIf (pageSize pageData > 3 * 1024 * 1024) LARGE_PAGE_SIZE issues9;
          issues11 = pushIf (CrawlResult.responseTime result > 3000) SLOW_RESPONSE issues10;
          links = foldl (classifyLink L baseUrl' (CrawlResult.url result)) ([], []) (a_hrefs doc)
      in pageData
           \<lparr>title := (if title' = [] then None else Some title'),
            metaDescription := metaDescription',
            h1Tags := h1Tags',
            h1Count := h1Count',
            hasCanonical := \<not> falsy canonical,
            canonicalUrl := orNull canonical,
            hasViewport := \<not> falsy viewport,
            hasRobotsMeta := \<not> falsy robotsMeta,
            robotsContent := orNull robotsMeta,
            ogTags := ogTags',
            images := \<lparr>Images.total = length (img_alts doc), withoutAlt = imagesWithoutAlt\<rparr>,
            textToHtmlRatio := ratio,
            internalLinks := fst links,
            externalLinks := snd links,
            issues := issues11\<rparr>)"

definition analyzePage ::
  "UrlLib \<Rightarrow> (string \<Rightarrow> CheerioDoc) \<Rightarrow> (string \<Rightarrow> string) \<Rightarrow> CrawlResult \<Rightarrow> string
     \<Rightarrow> AnalyzerConfig \<Rightarrow> PageData" where
  "analyzePage L load extractTextContent result baseUrl' config' =
     (let doc = (if html result \<noteq> [] then Some (load (html result)) else None);
          pageData = basicPageData result;
          issues1 = pushIf (CrawlResult.statusCode result \<ge> 500) SERVER_ERROR [];
          issues2 = pushIf (length (redirectChain result) \<ge> 3) REDIRECT_CHAIN issues1
      in case doc of
           None \<Rightarrow> pageData\<lparr>issues := issues2\<rparr>
         | Some d \<Rightarrow> analyzeMarkup L extractTextContent d result baseUrl' pageData issues2)"

subsection \<open>Orphan pages\<close>

text \<open>The first loop of \<open>detectOrphanPages\<close>: what one internal link adds to \<open>linkedPages\<close>.\<close>

definition addLinked :: "string set \<Rightarrow> string \<Rightarrow> string set" where
  "addLinked linkedPages link =
     (if endsWith link ''/'' then insert (slice_0_minus1 link) (insert link linkedPages)
      else insert (link @ ''/'') (insert link linkedPages))"

definition linkedPagesOf :: "PageData list \<Rightarrow> string \<Rightarrow> string set" where
  "linkedPagesOf pages baseUrl' =
     foldl (\<lambda>linkedPages page. foldl addLinked linkedPages (internalLinks page))
       {baseUrl', baseUrl' @ ''/''} pages"

text \<open>The body of the second loop, on one page.\<close>

definition flagOrphan :: "string set \<Rightarrow> string \<Rightarrow> PageData \<Rightarrow> PageData" where
  "flagOrphan linkedPages baseUrl' page =
     (let url' = PageData.url page;
          urlWithSlash = (if endsWith url' ''/'' then url' else url' @ ''/'');
          urlWithoutSlash = (if endsWith url' ''/'' then slice_0_minus1 url' else url')
      in if url' \<notin> linkedPages \<and> urlWithSlash \<notin> linkedPages \<and> urlWithoutSlash \<notin> linkedPages
         then (if url' \<noteq> baseUrl' \<and> url' \<noteq> baseUrl' @ ''/''
               then page\<lparr>issues := issues page @ [createIssue ORPHAN_PAGE]\<rparr>
               else page)
         else page)"

text \<open>The source mutates the pages in place; the model returns them.\<close>

definition detectOrphanPages :: "PageData list \<Rightarrow> string \<Rightarrow> PageData list" where
  "detectOrphanPages pages baseUrl' =
     map (flagOrphan (linkedPagesOf pages baseUrl') baseUrl') pages"

definition analyzeCrawlResults ::
  "UrlLib \<Rightarrow> (string \<Rightarrow> CheerioDoc) \<Rightarrow> (string \<Rightarrow> string) \<Rightarrow> CrawlResult list \<Rightarrow> string
     \<Rightarrow> AnalyzerConfig \<Rightarrow> PageData list" where
  "analyzeCrawlResults L load extractTextContent crawlResults baseUrl' config' =
     detectOrphanPages
       (map (\<lambda>result. analyzePage L load extractTextContent result baseUrl' config') crawlResults)
       baseUrl'"

section \<open>Crawler (services/crawler.ts)\<close>

record CrawlerConfig =
  maxPages :: int
  maxDepth :: int
  timeout :: int
  respectRobotsTxt :: bool
  userAgent :: string
  maxConcurrentRequests :: int

text \<open>\<open>DEFAULT_CONFIG\<close> with none of the environment variables set.\<close>

definition DEFAULT_CONFIG :: CrawlerConfig where
  "DEFAULT_CONFIG =
     \<lparr>maxPages = 50, maxDepth = 3, timeout = 10000, respectRobotsTxt = True,
      userAgent = ''SnappySEOBot/1.0 (+https://gosnappy.io)'', maxConcurrentRequests = 5\<rparr>"

text \<open>
  What \<open>axios.get\<close> settles with (\<open>validateStatus\<close> accepts every status): it rejects with a
  message, or resolves with a status, the body (\<open>None\<close> when \<open>response.data\<close> is not a string),
  the headers and the redirects \<open>beforeRedirect\<close> recorded.  \<open>elapsed\<close> is
  \<open>Date.now() - startTime\<close> when it settles.
\<close>

datatype AxiosOutcome =
    Rejected string int
  | Resolved int "string option" "(string \<times> string) list" "string list" int

text \<open>
  \<open>emitProgress\<close> only notifies the listeners and changes nothing in the crawler; it is left out.
\<close>

text \<open>
  The fields of the class, and \<open>pending\<close>: the \<open>crawlPage\<close> calls whose request has not settled
  yet, \<open>(url, depth)\<close> in the order they were started.  The parsed robots.txt answers
  \<open>isAllowed(url, userAgent)\<close> for the configured user agent with \<open>true\<close>, \<open>false\<close> or \<open>undefined\<close>.
\<close>

record Crawler =
  config :: CrawlerConfig
  visited :: "string set"
  queue :: "(string \<times> int) list"
  results :: "CrawlResult list"
  robotsTxt :: "(string \<Rightarrow> bool option) option"
  baseUrl :: string
  baseDomain :: string
  activeRequests :: int
  stopped :: bool
  pending :: "(string \<times> int) list"

definition isAllowedByRobots :: "Crawler \<Rightarrow> string \<Rightarrow> bool" where
  "isAllowedByRobots st url' =
     (case robotsTxt st of None \<Rightarrow> True | Some isAllowed \<Rightarrow> isAllowed url' \<noteq> Some False)"

definition extractLinks :: "UrlLib \<Rightarrow> (string \<Rightarrow> CheerioDoc) \<Rightarrow> string \<Rightarrow> string \<Rightarrow> string list" where
  "extractLinks L load html' baseUrl' =
     foldl (\<lambda>links href'.
              if href' \<noteq> [] then
                let absoluteUrl = resolveUrl L baseUrl' href' in
                if absoluteUrl \<noteq> [] \<and> absoluteUrl \<notin> set links then links @ [absoluteUrl] else links
              else links)
       [] (a_hrefs (load html'))"

text \<open>The body of the loop over the extracted links in \<open>crawlPage\<close>.\<close>

definition enqueueLink :: "UrlLib \<Rightarrow> int \<Rightarrow> Crawler \<Rightarrow> string \<Rightarrow> Crawler" where
  "enqueueLink L depth st link =
     (if isInternalLink L (baseUrl st) link \<and>
         shouldCrawlUrl L link \<and>
         sanitizeUrlForCrawl L link \<notin> visited st \<and>
         int (length (results st)) + int (length (queue st)) < maxPages (config st)
      then st\<lparr>queue := queue st @ [(link, depth + 1)]\<rparr>
      else st)"

text \<open>
  \<open>crawlPage\<close> from the moment its request settles: it runs to its end without another
  \<open>await\<close>.
\<close>

definition crawlPage_settled ::
  "UrlLib \<Rightarrow> (string \<Rightarrow> CheerioDoc) \<Rightarrow> Crawler \<Rightarrow> string \<Rightarrow> int \<Rightarrow> AxiosOutcome \<Rightarrow> Crawler" where
  "crawlPage_settled L load st url' depth outcome =
     (case outcome of
        Rejected message elapsed \<Rightarrow>
          st\<lparr>results := results st @
               [\<lparr>CrawlResult.url = url', statusCode = 0, responseTime = elapsed, html = [],
                 headers = [], redirectChain = [],
                 error = Some (if message = [] then ''Unknown error'' else message)\<rparr>]\<rparr>
      | Resolved status data hdrs chain elapsed \<Rightarrow>
          let result =
                \<lparr>CrawlResult.url = url', statusCode = status, responseTime = elapsed,
                 html = (case data of Some d \<Rightarrow> d | None \<Rightarrow> []),
                 headers = hdrs, redirectChain = chain, error = None\<rparr>;
              st1 =
                (case data of
                   Some d \<Rightarrow>
                     if status \<ge> 200 \<and> status < 400 \<and>
                        int (length (results st)) < maxPages (config st)
                     then foldl (enqueueLink L depth) st (extractLinks L load d url')
                     else st
                 | None \<Rightarrow> st)
          in st1\<lparr>results := results st1 @ [result]\<rparr>)"

text \<open>
  The inner loop of \<open>processQueue\<close>: it starts requests until the queue is empty or one of the
  limits holds.  Starting \<open>crawlPage\<close> runs it up to its \<open>await\<close> of the request.
\<close>

function launch :: "UrlLib \<Rightarrow> Crawler \<Rightarrow> Crawler" where
  "launch L st =
     (if queue st \<noteq> [] \<and>
         activeRequests st < maxConcurrentRequests (config st) \<and>
         int (length (results st)) < maxPages (config st) \<and>
         \<not> stopped st
      then
        let item = hd (queue st);
            st1 = st\<lparr>queue := tl (queue st)\<rparr>;
            normalizedUrl = sanitizeUrlForCrawl L (fst item)
        in if normalizedUrl \<in> visited st1 then launch L st1
           else if snd item > maxDepth (config st1) then launch L st1
           else if \<not> isAllowedByRobots st1 normalizedUrl then launch L st1
           else launch L
                  (st1\<lparr>visited := insert normalizedUrl (visited st1),
                       activeRequests := activeRequests st1 + 1,
                       pending := pending st1 @ [(normalizedUrl, snd item)]\<rparr>)
      else st)"
  by pat_completeness auto
termination
  by (relation "measure (\<lambda>(L, st). length (queue st))") auto

text \<open>
  While \<open>processQueue\<close> sleeps, requests settle and \<open>stop()\<close> may be called.  \<open>Settle i\<close>: the
  request at position \<open>i\<close> of \<open>pending\<close> settles with what \<open>fetch\<close> says, \<open>crawlPage\<close> runs to
  its end and the \<open>finally\<close> handler counts the request off.
\<close>

datatype Event = Settle nat | Stop

definition applyEvent ::
  "UrlLib \<Rightarrow> (string \<Rightarrow> CheerioDoc) \<Rightarrow> (string \<Rightarrow> AxiosOutcome) \<Rightarrow> Crawler \<Rightarrow> Event \<Rightarrow> Crawler" where
  "applyEvent L load fetch st ev =
     (case ev of
        Stop \<Rightarrow> st\<lparr>stopped := True\<rparr>
      | Settle i \<Rightarrow>
          if i < length (pending st) then
            let item = pending st ! i;
                st1 = crawlPage_settled L load st (fst item) (snd item) (fetch (fst item))
            in st1\<lparr>activeRequests := activeRequests st1 - 1,
                   pending := take i (pending st1) @ drop (Suc i) (pending st1)\<rparr>
          else st)"

text \<open>
  The outer loop of \<open>processQueue\<close>.  \<open>waits\<close> lists, for each 100 ms sleep in turn, the events
  that happen during it.  The result is \<open>None\<close> when the loop never ends, and when the listed
  sleeps are over before it ends; otherwise the state at the loop's exit and the sleeps not
  used.
\<close>

partial_function (option) processQueue_loop ::
  "UrlLib \<Rightarrow> (string \<Rightarrow> CheerioDoc) \<Rightarrow> (string \<Rightarrow> AxiosOutcome) \<Rightarrow> Event list list \<Rightarrow> Crawler
     \<Rightarrow> (Crawler \<times> Event list list) option" where
  "processQueue_loop L load fetch waits st =
     (if (queue st \<noteq> [] \<or> activeRequests st > 0) \<and> \<not> stopped st then
        let st1 = launch L st in
        if activeRequests st1 > 0 then
          (case waits of
             [] \<Rightarrow> None
           | evs # waits' \<Rightarrow>
               processQueue_loop L load fetch waits' (foldl (applyEvent L load fetch) st1 evs))
        else if queue st1 = [] then Some (st1, waits)
        else processQueue_loop L load fetch waits st1
      else Some (st, waits))"

text \<open>
  \<open>await Promise.all(promises)\<close>: the requests still pending settle, first as the remaining
  events say, then in the order they were started.
\<close>

definition settleAll ::
  "UrlLib \<Rightarrow> (string \<Rightarrow> CheerioDoc) \<Rightarrow> (string \<Rightarrow> AxiosOutcome) \<Rightarrow> Event list list \<Rightarrow> Crawler \<Rightarrow> Crawler" where
  "settleAll L load fetch waits st =
     (let st1 = foldl (applyEvent L load fetch) st (concat waits)
      in foldl (applyEvent L load fetch) st1 (replicate (length (pending st1)) (Settle 0)))"

definition processQueue ::
  "UrlLib \<Rightarrow> (string \<Rightarrow> CheerioDoc) \<Rightarrow> (string \<Rightarrow> AxiosOutcome) \<Rightarrow> Event list list \<Rightarrow> Crawler
     \<Rightarrow> Crawler option" where
  "processQueue L load fetch waits st =
     (case processQueue_loop L load fetch waits st of
        None \<Rightarrow> None
      | Some (st1, waits') \<Rightarrow> Some (settleAll L load fetch waits' st1))"

text \<open>
  \<open>crawl\<close> on a new \<open>Crawler\<close>.  \<open>robots\<close> is what \<open>fetchRobotsTxt\<close> leaves in \<open>robotsTxt\<close>: the
  parsed file, or \<open>None\<close> when the request failed or its status was not 200.
\<close>

definition crawl ::
  "UrlLib \<Rightarrow> (string \<Rightarrow> CheerioDoc) \<Rightarrow> (string \<Rightarrow> AxiosOutcome) \<Rightarrow> (string \<Rightarrow> bool option) option
     \<Rightarrow> CrawlerConfig \<Rightarrow> Event list list \<Rightarrow> string \<Rightarrow> CrawlResult list option" where
  "crawl L load fetch robots config' waits startUrl =
     (let st =
            \<lparr>config = config', visited = {}, queue = [], results = [],
             robotsTxt = (if respectRobotsTxt config' then robots else None),
             baseUrl = startUrl, baseDomain = getBaseDomain L startUrl,
             activeRequests = 0, stopped = False, pending = []\<rparr>;
          st = st\<lparr>queue := queue st @ [(startUrl, 0)]\<rparr>
      in map_option results (processQueue L load fetch waits st))"

section \<open>The crawler's bookkeeping\<close>

text \<open>
  The URLs the crawler has a result for or a request in flight for, and what the loop keeps
  true of them: they are pairwise different, they are all in \<open>visited\<close>, and each is its own
  sanitized form.
\<close>

definition tracked :: "Crawler \<Rightarrow> string list" where
  "tracked st = map CrawlResult.url (results st) @ map fst (pending st)"

definition crawl_inv :: "UrlLib \<Rightarrow> Crawler \<Rightarrow> bool" where
  "crawl_inv L st =
     (distinct (tracked st) \<and> set (tracked st) \<subseteq> visited st \<and>
      list_all (\<lambda>u. sanitizeUrlForCrawl L u = u) (tracked st))"

text \<open>
  Sanitizing a sanitized URL changes nothing: what \<open>href\<close> returns parses back to the same
  components.  This is a property of the platform's \<open>URL\<close> class.
\<close>

definition sanitize_idempotent :: "UrlLib \<Rightarrow> bool" where
  "sanitize_idempotent L =
     (\<forall>u. sanitizeUrlForCrawl L (sanitizeUrlForCrawl L u) = sanitizeUrlForCrawl L u)"

section \<open>A small site, for the worked examples\<close>

text \<open>
  The URLs of the examples, with what the platform's \<open>URL\<close> class makes of each of them.  None
  has credentials, a port, a query or a fragment, and \<open>exampleHref\<close> serialises such URLs.
  \<open>exampleLib\<close> knows these absolute URLs and no others.
\<close>

definition mkURL :: "string \<Rightarrow> string \<Rightarrow> string \<Rightarrow> URL" where
  "mkURL protocol' hostname' pathname' =
     \<lparr>protocol = protocol', username = [], password = [], hostname = hostname', port = [],
      pathname = pathname', searchParams = [], hash = []\<rparr>"

definition exampleUrls :: "(string \<times> URL) list" where
  "exampleUrls =
     [(''https://a.com'', mkURL ''https:'' ''a.com'' ''/''),
      (''https://A.com'', mkURL ''https:'' ''a.com'' ''/''),
      (''https://a.com/'', mkURL ''https:'' ''a.com'' ''/''),
      (''https://a.com/x'', mkURL ''https:'' ''a.com'' ''/x''),
      (''https://a.com/y'', mkURL ''https:'' ''a.com'' ''/y''),
      (''https://b.org/'', mkURL ''https:'' ''b.org'' ''/''),
      (''ftp://a.com/f'', mkURL ''ftp:'' ''a.com'' ''/f''),
      (''mailto:me@a.com'', mkURL ''mailto:'' [] ''me@a.com''),
      (''http://172.20.0.1'', mkURL ''http:'' ''172.20.0.1'' ''/''),
      (''http://172.20.0.1/'', mkURL ''http:'' ''172.20.0.1'' ''/''),
      (''http://127.0.0.2'', mkURL ''http:'' ''127.0.0.2'' ''/''),
      (''http://127.0.0.2/'', mkURL ''http:'' ''127.0.0.2'' ''/'')]"

definition exampleHref :: "URL \<Rightarrow> string" where
  "exampleHref u =
     protocol u @ (if hostname u = [] then [] else ''//'' @ hostname u) @ pathname u"

definition exampleLib :: UrlLib where
  "exampleLib =
     \<lparr>URL_new = map_of exampleUrls,
      URL_new_base = (\<lambda>input base.
         case map_of exampleUrls base of None \<Rightarrow> None | Some b \<Rightarrow> map_of exampleUrls input),
      href = exampleHref\<rparr>"

definition emptyDoc :: CheerioDoc where
  "emptyDoc =
     \<lparr>title_text = [], meta_description = None, h1_texts = [], link_canonical = None,
      meta_viewport = None, meta_robots = None, og_title = None, og_description = None,
      og_image = None, img_alts = [], a_hrefs = []\<rparr>"

definition homeHtml :: string where
  "homeHtml = ''<a href=https://a.com/x>x</a><a href=https://a.com/y>y</a>''"

definition leafHtml :: string where
  "leafHtml = ''<p>leaf</p>''"

definition linksHtml :: string where
  "linksHtml =
     ''<a href=mailto:me@a.com>m</a><a href=https://a.com/x>x</a><a href=https://b.org/>b</a>''"

definition ftpHtml :: string where
  "ftpHtml = ''<a href=ftp://a.com/f>f</a>''"

definition acmeTitle :: string where
  "acmeTitle = ''Acme Wind Turbines - Clean Power for Everyone''"

definition acmeDescription :: string where
  "acmeDescription =
     ''Acme builds small wind turbines for homes and farms. Compare models, prices and delivery times here.''"

definition acmeHtml :: string where
  "acmeHtml =
     ''<title>Acme Wind Turbines - Clean Power for Everyone</title>'' @
     ''<meta name=description content='Acme builds small wind turbines for homes and farms. Compare models, prices and delivery times here.'>'' @
     ''<meta name=viewport content='width=device-width'>'' @
     ''<link rel=canonical href=https://a.com/><h1>Acme</h1>''"

definition acmeRobotsHtml :: string where
  "acmeRobotsHtml =
     ''<title>Acme Wind Turbines - Clean Power for Everyone</title>'' @
     ''<meta name=description content='Acme builds small wind turbines for homes and farms. Compare models, prices and delivery times here.'>'' @
     ''<meta name=viewport content='width=device-width'><meta name=robots content=index>'' @
     ''<link rel=canonical href=https://a.com/><h1>Acme</h1>''"

definition acmeDoc :: CheerioDoc where
  "acmeDoc =
     emptyDoc\<lparr>title_text := acmeTitle, meta_description := Some acmeDescription,
       h1_texts := [''Acme''], link_canonical := Some ''https://a.com/'',
       meta_viewport := Some ''width=device-width''\<rparr>"

definition exampleLoad :: "string \<Rightarrow> CheerioDoc" where
  "exampleLoad html' =
     (if html' = homeHtml then emptyDoc\<lparr>a_hrefs := [''https://a.com/x'', ''https://a.com/y'']\<rparr>
      else if html' = linksHtml
        then emptyDoc\<lparr>a_hrefs := [''mailto:me@a.com'', ''https://a.com/x'', ''https://b.org/'']\<rparr>
      else if html' = ftpHtml then emptyDoc\<lparr>a_hrefs := [''ftp://a.com/f'']\<rparr>
      else if html' = acmeHtml then acmeDoc
      else if html' = acmeRobotsHtml then acmeDoc\<lparr>meta_robots := Some ''index''\<rparr>
      else emptyDoc)"

definition exampleText :: "string \<Rightarrow> string" where
  "exampleText html' =
     (if html' = homeHtml then ''x y''
      else if html' = leafHtml then ''leaf''
      else if html' = linksHtml then ''m x b''
      else if html' = ftpHtml then ''f''
      else if html' = acmeHtml \<or> html' = acmeRobotsHtml then acmeTitle @ '' Acme''
      else [])"

definition exampleFetch :: "string \<Rightarrow> AxiosOutcome" where
  "exampleFetch url' =
     (if url' = ''https://a.com/''
        then Resolved 200 (Some homeHtml) [(''content-type'', ''text/html'')] [] 120
      else if url' = ''https://a.com/x'' \<or> url' = ''https://a.com/y''
        then Resolved 200 (Some leafHtml) [(''content-type'', ''text/html'')] [] 80
      else Rejected ''getaddrinfo ENOTFOUND'' 30)"

definition fetched :: "string \<Rightarrow> int \<Rightarrow> string \<Rightarrow> string list \<Rightarrow> CrawlResult" where
  "fetched url' status html' chain =
     \<lparr>CrawlResult.url = url', statusCode = status, responseTime = 80, html = html',
      headers = [], redirectChain = chain, error = None\<rparr>"

text \<open>A result as \<open>crawlPage\<close> records it for a 200 response of the example site.\<close>

definition crawled :: "string \<Rightarrow> string \<Rightarrow> int \<Rightarrow> CrawlResult" where
  "crawled url' html' elapsed =
     \<lparr>CrawlResult.url = url', statusCode = 200, responseTime = elapsed, html = html',
      headers = [(''content-type'', ''text/html'')], redirectChain = [], error = None\<rparr>"

section \<open>Properties\<close>

lemmas issue_codes =
  BROKEN_INTERNAL_LINK_def BROKEN_EXTERNAL_LINK_def SERVER_ERROR_def MISSING_TITLE_def
  REDIRECT_CHAIN_def REDIRECT_LOOP_def MISSING_META_DESCRIPTION_def MISSING_H1_def
  MULTIPLE_H1_def LOW_TEXT_HTML_RATIO_def TITLE_TOO_LONG_def TITLE_TOO_SHORT_def
  META_DESCRIPTION_TOO_LONG_def META_DESCRIPTION_TOO_SHORT_def MISSING_CANONICAL_def
  MISSING_VIEWPORT_def MISSING_ALT_TEXT_def LARGE_PAGE_SIZE_def SLOW_RESPONSE_def
  ORPHAN_PAGE_def MISSING_OG_TAGS_def MISSING_ROBOTS_META_def

subsection \<open>Site health score\<close>






lemmas example_defs =
  exampleLib_def exampleUrls_def mkURL_def exampleHref_def exampleLoad_def exampleText_def
  emptyDoc_def acmeDoc_def homeHtml_def leafHtml_def linksHtml_def ftpHtml_def acmeHtml_def
  acmeRobotsHtml_def acmeTitle_def acmeDescription_def fetched_def

subsection \<open>Crawled pages breakdown\<close>

lemma breakdown_step_sum:
  "breakdown_step (h, w, r, b) p = (h', w', r', b') \<Longrightarrow> h' + w' + r' + b' = h + w + r + b + 1"
  by (auto simp: Let_def split: if_splits)

lemma foldl_breakdown_sum:
  "foldl breakdown_step (h, w, r, b) ps = (h', w', r', b') \<Longrightarrow>
     h' + w' + r' + b' = h + w + r + b + length ps"
proof (induction ps arbitrary: h w r b)
  case Nil
  then show ?case by simp
next
  case (Cons p ps)
  obtain h1 w1 r1 b1 where s: "breakdown_step (h, w, r, b) p = (h1, w1, r1, b1)"
    by (cases "breakdown_step (h, w, r, b) p") auto
  from Cons.prems s have "foldl breakdown_step (h1, w1, r1, b1) ps = (h', w', r', b')"
    by simp
  from Cons.IH[OF this] breakdown_step_sum[OF s] show ?case
    by simp
qed

text \<open>
  Claim C3.  For every list of pages, the breakdown's \<open>total\<close> is the number of pages, and
  \<open>healthy + withIssues + redirects + broken\<close> is \<open>total\<close>: every page is counted in exactly one
  of the four categories.
\<close>

theorem breakdown_partition:
  "CrawledPages.total (calculateCrawledPagesBreakdown pages) = length pages
   \<and> healthy (calculateCrawledPagesBreakdown pages) + withIssues (calculateCrawledPagesBreakdown pages)
     + redirects (calculateCrawledPagesBreakdown pages) + broken (calculateCrawledPagesBreakdown pages)
     = CrawledPages.total (calculateCrawledPagesBreakdown pages)"
proof -
  obtain h w r b where f: "foldl breakdown_step (0, 0, 0, 0) pages = (h, w, r, b)"
    by (cases "foldl breakdown_step (0, 0, 0, 0) pages") auto
  from foldl_breakdown_sum[OF f] show ?thesis
    by (simp add: calculateCrawledPagesBreakdown_def f)
qed

theorem breakdown_partition_witness:
  "CrawledPages.total (calculateCrawledPagesBreakdown
       [basicPageData (fetched ''https://a.com/'' 200 leafHtml []),
        basicPageData (fetched ''https://a.com/x'' 404 leafHtml []),
        basicPageData (fetched ''https://a.com/y'' 301 [] [])]) = 3
   \<and> calculateCrawledPagesBreakdown
       [basicPageData (fetched ''https://a.com/'' 200 leafHtml []),
        basicPageData (fetched ''https://a.com/x'' 404 leafHtml []),
        basicPageData (fetched ''https://a.com/y'' 301 [] [])]
     = \<lparr>CrawledPages.total = 3, healthy = 1, withIssues = 0, redirects = 1, broken = 1\<rparr>"
proof -
  have "calculateCrawledPagesBreakdown
       [basicPageData (fetched ''https://a.com/'' 200 leafHtml []),
        basicPageData (fetched ''https://a.com/x'' 404 leafHtml []),
        basicPageData (fetched ''https://a.com/y'' 301 [] [])]
     = \<lparr>CrawledPages.total = 3, healthy = 1, withIssues = 0, redirects = 1, broken = 1\<rparr>"
    by (simp add: calculateCrawledPagesBreakdown_def basicPageData_def fetched_def)
  with breakdown_partition[of "[basicPageData (fetched ''https://a.com/'' 200 leafHtml []),
        basicPageData (fetched ''https://a.com/x'' 404 leafHtml []),
        basicPageData (fetched ''https://a.com/y'' 301 [] [])]"]
  show ?thesis by simp
qed

lemma breakdown_step_plus4: "breakdown_step (plus4 x y) p = plus4 x (breakdown_step y p)"
  by (cases x; cases y) (simp add: plus4_def Let_def)

lemma foldl_breakdown_plus4:
  "foldl breakdown_step (plus4 x y) ps = plus4 x (foldl breakdown_step y ps)"
  by (induction ps arbitrary: y) (simp_all add: breakdown_step_plus4)

lemma foldl_breakdown_insert:
  "foldl breakdown_step (0, 0, 0, 0) (xs @ p # ys) =
     plus4 (breakdown_step (0, 0, 0, 0) p) (foldl breakdown_step (0, 0, 0, 0) (xs @ ys))"
proof -
  let ?z = "(0, 0, 0, 0) :: counters"
  let ?a = "foldl breakdown_step ?z xs"
  have "breakdown_step ?a p = breakdown_step (plus4 ?a ?z) p"
    by (cases ?a) (simp add: plus4_def)
  also have "\<dots> = plus4 ?a (breakdown_step ?z p)"
    by (rule breakdown_step_plus4)
  also have "\<dots> = plus4 (breakdown_step ?z p) ?a"
    by (cases ?a; cases "breakdown_step ?z p") (simp add: plus4_def)
  finally have "foldl breakdown_step ?z (xs @ p # ys) =
      foldl breakdown_step (plus4 (breakdown_step ?z p) ?a) ys"
    by simp
  also have "\<dots> = plus4 (breakdown_step ?z p) (foldl breakdown_step ?a ys)"
    by (rule foldl_breakdown_plus4)
  finally show ?thesis by simp
qed

text \<open>
  Claim C9.  A page with \<open>statusCode\<close> 0 (a transport failure), wherever it stands in the list,
  adds one to \<open>healthy\<close> when its issue list is empty and one to \<open>withIssues\<close> otherwise, and
  nothing to \<open>redirects\<close> or \<open>broken\<close>.
\<close>

theorem breakdown_status_zero:
  assumes "PageData.statusCode p = 0"
  shows "calculateCrawledPagesBreakdown (xs @ p # ys) =
     (let rest = calculateCrawledPagesBreakdown (xs @ ys) in
      if issues p = []
      then rest\<lparr>CrawledPages.total := CrawledPages.total rest + 1, healthy := healthy rest + 1\<rparr>
      else rest\<lparr>CrawledPages.total := CrawledPages.total rest + 1, withIssues := withIssues rest + 1\<rparr>)"
proof -
  obtain h w r b where f: "foldl breakdown_step (0, 0, 0, 0) (xs @ ys) = (h, w, r, b)"
    by (cases "foldl breakdown_step (0, 0, 0, 0) (xs @ ys)") auto
  show ?thesis
    unfolding calculateCrawledPagesBreakdown_def foldl_breakdown_insert
    using f assms by (simp add: plus4_def)
qed

theorem breakdown_status_zero_witness:
  "PageData.statusCode ((basicPageData (fetched ''https://a.com/x'' 0 [] []))
       \<lparr>issues := [createIssue ORPHAN_PAGE]\<rparr>) = 0
   \<and> calculateCrawledPagesBreakdown
       ([basicPageData (fetched ''https://a.com/'' 200 leafHtml [])] @
        (basicPageData (fetched ''https://a.com/x'' 0 [] []))\<lparr>issues := [createIssue ORPHAN_PAGE]\<rparr> #
        [basicPageData (fetched ''https://a.com/y'' 0 [] [])])
     = \<lparr>CrawledPages.total = 3, healthy = 2, withIssues = 1, redirects = 0, broken = 0\<rparr>"
proof -
  let ?p = "(basicPageData (fetched ''https://a.com/x'' 0 [] []))\<lparr>issues := [createIssue ORPHAN_PAGE]\<rparr>"
  have s: "PageData.statusCode ?p = 0"
    by (simp add: basicPageData_def fetched_def)
  have r: "calculateCrawledPagesBreakdown
       ([basicPageData (fetched ''https://a.com/'' 200 leafHtml [])] @
        [basicPageData (fetched ''https://a.com/y'' 0 [] [])])
     = \<lparr>CrawledPages.total = 2, healthy = 2, withIssues = 0, redirects = 0, broken = 0\<rparr>"
    by (simp add: calculateCrawledPagesBreakdown_def basicPageData_def fetched_def)
  show ?thesis
    using breakdown_status_zero[OF s, of "[basicPageData (fetched ''https://a.com/'' 200 leafHtml [])]"
        "[basicPageData (fetched ''https://a.com/y'' 0 [] [])]"] s r
    by (simp add: Let_def)
qed

subsection \<open>Orphan pages\<close>

lemma addLinked_superset: "S \<subseteq> foldl addLinked S links"
proof (induction links arbitrary: S)
  case Nil
  show ?case by simp
next
  case (Cons l links)
  have "S \<subseteq> addLinked S l"
    by (auto simp: addLinked_def)
  also have "\<dots> \<subseteq> foldl addLinked (addLinked S l) links"
    by (rule Cons.IH)
  finally show ?case by simp
qed

lemma linkedPages_superset:
  "S \<subseteq> foldl (\<lambda>linkedPages page. foldl addLinked linkedPages (internalLinks page)) S pages"
proof (induction pages arbitrary: S)
  case Nil
  show ?case by simp
next
  case (Cons p pages)
  have "S \<subseteq> foldl addLinked S (internalLinks p)"
    by (rule addLinked_superset)
  also have "\<dots> \<subseteq> foldl (\<lambda>linkedPages page. foldl addLinked linkedPages (internalLinks page))
      (foldl addLinked S (internalLinks p)) pages"
    by (rule Cons.IH)
  finally show ?case by simp
qed

lemma homepage_linked:
  "baseUrl' \<in> linkedPagesOf pages baseUrl' \<and> baseUrl' @ ''/'' \<in> linkedPagesOf pages baseUrl'"
  using linkedPages_superset[of "{baseUrl', baseUrl' @ ''/''}" pages]
  by (auto simp: linkedPagesOf_def)

text \<open>
  What the guard of \<open>detectOrphanPages\<close> gives: a page whose URL is, character for character,
  the base URL, the base URL with a trailing slash, or the base URL without its trailing slash
  is left as it is.
\<close>

lemma homepage_never_orphan:
  assumes "i < length pages"
    and "PageData.url (pages ! i) = baseUrl'
       \<or> PageData.url (pages ! i) = baseUrl' @ ''/''
       \<or> (baseUrl' = PageData.url (pages ! i) @ ''/'' \<and> \<not> endsWith (PageData.url (pages ! i)) ''/'')"
  shows "detectOrphanPages pages baseUrl' ! i = pages ! i"
proof -
  have "flagOrphan (linkedPagesOf pages baseUrl') baseUrl' (pages ! i) = pages ! i"
    using assms(2) homepage_linked[of baseUrl' pages]
    by (auto simp: flagOrphan_def Let_def)
  then show ?thesis
    using assms(1) by (simp add: detectOrphanPages_def)
qed

lemma homepage_never_orphan_example:
  "PageData.url (basicPageData (fetched ''https://a.com/'' 200 leafHtml [])) = ''https://a.com'' @ ''/''
   \<and> detectOrphanPages
     [basicPageData (fetched ''https://a.com/'' 200 leafHtml []),
      basicPageData (fetched ''https://a.com/x'' 200 leafHtml [])] ''https://a.com'' ! 0
   = basicPageData (fetched ''https://a.com/'' 200 leafHtml [])
   \<and> map code (issues (detectOrphanPages
     [basicPageData (fetched ''https://a.com/'' 200 leafHtml []),
      basicPageData (fetched ''https://a.com/x'' 200 leafHtml [])] ''https://a.com'' ! 1))
     = [ORPHAN_PAGE]"
proof -
  have u: "PageData.url (basicPageData (fetched ''https://a.com/'' 200 leafHtml [])) = ''https://a.com'' @ ''/''"
    by (simp add: basicPageData_def fetched_def)
  have "detectOrphanPages
     [basicPageData (fetched ''https://a.com/'' 200 leafHtml []),
      basicPageData (fetched ''https://a.com/x'' 200 leafHtml [])] ''https://a.com'' ! 0
   = basicPageData (fetched ''https://a.com/'' 200 leafHtml [])"
    using homepage_never_orphan[of 0 "[basicPageData (fetched ''https://a.com/'' 200 leafHtml []),
      basicPageData (fetched ''https://a.com/x'' 200 leafHtml [])]" "''https://a.com''"] u
    by simp
  moreover have "map code (issues (detectOrphanPages
     [basicPageData (fetched ''https://a.com/'' 200 leafHtml []),
      basicPageData (fetched ''https://a.com/x'' 200 leafHtml [])] ''https://a.com'' ! 1))
     = [ORPHAN_PAGE]"
    by (simp add: detectOrphanPages_def flagOrphan_def linkedPagesOf_def basicPageData_def
        fetched_def endsWith_def startsWith_def slice_0_minus1_def createIssue_def
        ISSUE_DEFINITIONS_def issue_codes Let_def)
  ultimately show ?thesis using u by simp
qed

lemma crawl_upper_case_host:
  "crawl exampleLib exampleLoad exampleFetch None DEFAULT_CONFIG
        [[Settle 0], [Settle 0, Settle 0]] (normalizeUrl ''A.com'')
   = Some [crawled ''https://a.com/'' homeHtml 120,
           crawled ''https://a.com/x'' leafHtml 80,
           crawled ''https://a.com/y'' leafHtml 80]"
  by (simp add: crawled_def normalizeUrl_def trim_def isWhiteSpace_def slice_0_minus1_def
      crawl_def processQueue_def processQueue_loop.simps launch.simps settleAll_def
      applyEvent_def crawlPage_settled_def enqueueLink_def extractLinks_def isAllowedByRobots_def
      sanitizeUrlForCrawl_def shouldCrawlUrl_def isInternalLink_def resolveUrl_def
      getBaseDomain_def searchParams_delete_def paramsToRemove_def skipExtensions_def
      toLowerCase_def toLowerChar_def endsWith_def startsWith_def DEFAULT_CONFIG_def
      exampleFetch_def example_defs Let_def)

lemma analyze_upper_case_host:
  "map (\<lambda>page. (PageData.url page, map code (issues page)))
     (analyzeCrawlResults exampleLib exampleLoad exampleText
        [crawled ''https://a.com/'' homeHtml 120,
         crawled ''https://a.com/x'' leafHtml 80,
         crawled ''https://a.com/y'' leafHtml 80]
        ''https://A.com'' DEFAULT_ANALYZER_CONFIG)
   = [(''https://a.com/'',
        [MISSING_TITLE, MISSING_META_DESCRIPTION, MISSING_H1, MISSING_CANONICAL,
         MISSING_VIEWPORT, MISSING_ROBOTS_META, MISSING_OG_TAGS, LOW_TEXT_HTML_RATIO,
         ORPHAN_PAGE]),
      (''https://a.com/x'',
        [MISSING_TITLE, MISSING_META_DESCRIPTION, MISSING_H1, MISSING_CANONICAL,
         MISSING_VIEWPORT, MISSING_ROBOTS_META, MISSING_OG_TAGS]),
      (''https://a.com/y'',
        [MISSING_TITLE, MISSING_META_DESCRIPTION, MISSING_H1, MISSING_CANONICAL,
         MISSING_VIEWPORT, MISSING_ROBOTS_META, MISSING_OG_TAGS])]"
  by (simp add: analyzeCrawlResults_def detectOrphanPages_def flagOrphan_def linkedPagesOf_def
      addLinked_def analyzePage_def analyzeMarkup_def classifyLink_def resolveUrl_def
      isInternalLink_def pushIf_def basicPageData_def falsy_def orNull_def trim_def
      isWhiteSpace_def calculateTextToHtmlRatio_def createIssue_def ISSUE_DEFINITIONS_def
      issue_codes crawled_def endsWith_def startsWith_def slice_0_minus1_def example_defs Let_def)

lemma validate_upper_case_host:
  "normalizeUrl ''A.com'' = ''https://A.com''
   \<and> validateUrl exampleLib ''https://A.com'' = \<lparr>valid = True, error = None\<rparr>"
  by (simp add: validateUrl_def normalizeUrl_def exampleLib_def exampleUrls_def mkURL_def trim_def
      isWhiteSpace_def startsWith_def endsWith_def slice_0_minus1_def toLowerCase_def
      toLowerChar_def Let_def)

text \<open>
  Claim C6 asks that orphan detection never flag the homepage.  An audit of \<open>A.com\<close> runs with
  the base URL \<open>https://A.com\<close>, which \<open>validateUrl\<close> accepts, while the crawler records
  the homepage under its sanitized URL \<open>https://a.com/\<close>.  No page links to the homepage,
  its URL is neither the base URL nor the base URL with a slash, and \<open>detectOrphanPages\<close>
  appends \<open>orphan_page\<close> to it.
\<close>

theorem homepage_flagged_orphan:
  "normalizeUrl ''A.com'' = ''https://A.com''
   \<and> validateUrl exampleLib ''https://A.com'' = \<lparr>valid = True, error = None\<rparr>
   \<and> map_option
        (\<lambda>crawlResults.
           map (\<lambda>page. (PageData.url page, map code (issues page)))
             (analyzeCrawlResults exampleLib exampleLoad exampleText crawlResults
                ''https://A.com'' DEFAULT_ANALYZER_CONFIG))
        (crawl exampleLib exampleLoad exampleFetch None DEFAULT_CONFIG
           [[Settle 0], [Settle 0, Settle 0]] ''https://A.com'')
     = Some
        [(''https://a.com/'',
           [MISSING_TITLE, MISSING_META_DESCRIPTION, MISSING_H1, MISSING_CANONICAL,
            MISSING_VIEWPORT, MISSING_ROBOTS_META, MISSING_OG_TAGS, LOW_TEXT_HTML_RATIO,
            ORPHAN_PAGE]),
         (''https://a.com/x'',
           [MISSING_TITLE, MISSING_META_DESCRIPTION, MISSING_H1, MISSING_CANONICAL,
            MISSING_VIEWPORT, MISSING_ROBOTS_META, MISSING_OG_TAGS]),
         (''https://a.com/y'',
           [MISSING_TITLE, MISSING_META_DESCRIPTION, MISSING_H1, MISSING_CANONICAL,
            MISSING_VIEWPORT, MISSING_ROBOTS_META, MISSING_OG_TAGS])]"
proof -
  have n: "normalizeUrl ''A.com'' = ''https://A.com''"
    using validate_upper_case_host by simp
  show ?thesis
    using validate_upper_case_host crawl_upper_case_host analyze_upper_case_host
    unfolding n by simp
qed

subsection \<open>Pages without a body\<close>

lemma analyzePage_no_html:
  assumes "html r = []"
  shows "analyzePage L load ext r baseUrl' cfg =
     (basicPageData r)\<lparr>issues :=
        pushIf (length (redirectChain r) \<ge> 3) REDIRECT_CHAIN
          (pushIf (CrawlResult.statusCode r \<ge> 500) SERVER_ERROR [])\<rparr>"
  using assms by (simp add: analyzePage_def Let_def)

lemma flagOrphan_cases:
  "flagOrphan S b p = p \<or> flagOrphan S b p = p\<lparr>issues := issues p @ [createIssue ORPHAN_PAGE]\<rparr>"
  by (simp add: flagOrphan_def Let_def)

text \<open>
  Claim C5, as amended.  For a fetch result with status 503, an empty body and fewer than three
  redirect hops, \<open>analyzePage\<close> returns the initial page data with the issue list
  \<open>[server_error_5xx]\<close>, whatever the HTML parser would say: no check that needs markup runs.
  After the orphan pass the page is that one, or that one with \<open>orphan_page\<close> appended.
\<close>

theorem server_error_without_body:
  assumes "i < length crawlResults"
    and "CrawlResult.statusCode (crawlResults ! i) = 503"
    and "html (crawlResults ! i) = []"
    and "length (redirectChain (crawlResults ! i)) < 3"
  shows "analyzePage L load ext (crawlResults ! i) baseUrl' cfg =
           (basicPageData (crawlResults ! i))\<lparr>issues := [createIssue SERVER_ERROR]\<rparr>
       \<and> (analyzeCrawlResults L load ext crawlResults baseUrl' cfg ! i =
             (basicPageData (crawlResults ! i))\<lparr>issues := [createIssue SERVER_ERROR]\<rparr>
          \<or> analyzeCrawlResults L load ext crawlResults baseUrl' cfg ! i =
             (basicPageData (crawlResults ! i))
               \<lparr>issues := [createIssue SERVER_ERROR, createIssue ORPHAN_PAGE]\<rparr>)"
proof -
  let ?r = "crawlResults ! i"
  let ?p = "(basicPageData ?r)\<lparr>issues := [createIssue SERVER_ERROR]\<rparr>"
  have a: "analyzePage L load ext ?r baseUrl' cfg = ?p"
    using assms(2,4) by (simp add: analyzePage_no_html[OF assms(3)] pushIf_def)
  have "analyzeCrawlResults L load ext crawlResults baseUrl' cfg ! i =
      flagOrphan (linkedPagesOf (map (\<lambda>result. analyzePage L load ext result baseUrl' cfg)
        crawlResults) baseUrl') baseUrl' ?p"
    using assms(1) a by (simp add: analyzeCrawlResults_def detectOrphanPages_def)
  with flagOrphan_cases[of _ baseUrl' ?p] a show ?thesis
    by auto
qed

theorem server_error_without_body_witness:
  "0 < length [fetched ''https://a.com/'' 503 [] []]
   \<and> CrawlResult.statusCode ([fetched ''https://a.com/'' 503 [] []] ! 0) = 503
   \<and> html ([fetched ''https://a.com/'' 503 [] []] ! 0) = []
   \<and> length (redirectChain ([fetched ''https://a.com/'' 503 [] []] ! 0)) < 3
   \<and> map code (issues (analyzePage exampleLib exampleLoad exampleText
         ([fetched ''https://a.com/'' 503 [] []] ! 0) ''https://a.com'' DEFAULT_ANALYZER_CONFIG))
       = [SERVER_ERROR]"
  using server_error_without_body[of 0 "[fetched ''https://a.com/'' 503 [] []]"
      exampleLib exampleLoad exampleText "''https://a.com''" DEFAULT_ANALYZER_CONFIG]
  by (simp add: fetched_def createIssue_def ISSUE_DEFINITIONS_def issue_codes)

text \<open>
  Claim C5 as stated fails: a 503 without a body that was reached through three redirects
  carries \<open>redirect_chain\<close> as well.
\<close>

theorem server_error_counterexample:
  "CrawlResult.statusCode (fetched ''https://a.com/'' 503 []
       [''https://a.com/x'', ''https://a.com/y'', ''https://a.com/'']) = 503
   \<and> html (fetched ''https://a.com/'' 503 []
       [''https://a.com/x'', ''https://a.com/y'', ''https://a.com/'']) = []
   \<and> map code (issues (analyzeCrawlResults exampleLib exampleLoad exampleText
       [fetched ''https://a.com/'' 503 [] [''https://a.com/x'', ''https://a.com/y'', ''https://a.com/'']]
       ''https://a.com'' DEFAULT_ANALYZER_CONFIG ! 0))
     = [SERVER_ERROR, REDIRECT_CHAIN]"
  by (simp add: analyzeCrawlResults_def detectOrphanPages_def flagOrphan_def linkedPagesOf_def
      analyzePage_def basicPageData_def pushIf_def
      fetched_def endsWith_def startsWith_def slice_0_minus1_def createIssue_def
      ISSUE_DEFINITIONS_def issue_codes Let_def)

subsection \<open>The Open Graph scenario\<close>

text \<open>
  Claim C4, as amended.  A page with a body, a title of exactly 45 characters, a meta description
  of exactly 100 characters, exactly one H1, a non-empty canonical link, viewport meta and robots
  meta, no Open Graph tags and no images, whose status is below 500, whose redirect chain is
  shorter than 3, whose text-to-HTML ratio is at least 10, whose size is at most 3 MiB and whose
  response time is at most 3000 ms, gets exactly one issue, the warning \<open>missing_og_tags\<close>.
\<close>

theorem scenario_og_only:
  assumes "html r \<noteq> []"
    and "length (trim (title_text (load (html r)))) = 45"
    and "meta_description (load (html r)) = Some d" and "length (trim d) = 100"
    and "length (h1_texts (load (html r))) = 1"
    and "\<not> falsy (link_canonical (load (html r)))"
    and "\<not> falsy (meta_viewport (load (html r)))"
    and "\<not> falsy (meta_robots (load (html r)))"
    and "falsy (og_title (load (html r)))"
    and "falsy (og_description (load (html r)))"
    and "falsy (og_image (load (html r)))"
    and "img_alts (load (html r)) = []"
    and "CrawlResult.statusCode r < 500"
    and "length (redirectChain r) < 3"
    and "10 \<le> calculateTextToHtmlRatio ext (html r)"
    and "length (html r) \<le> 3 * 1024 * 1024"
    and "CrawlResult.responseTime r \<le> 3000"
  shows "issues (analyzePage L load ext r baseUrl' cfg) = [createIssue MISSING_OG_TAGS]
       \<and> type (createIssue MISSING_OG_TAGS) = warning"
proof -
  have t: "trim (title_text (load (html r))) \<noteq> []"
    using assms(2) by auto
  have d: "orNull (Some (trim d)) = Some (trim d)"
    using assms(4) by (auto simp: orNull_def)
  have w: "type (createIssue MISSING_OG_TAGS) = warning"
    by (simp add: createIssue_def ISSUE_DEFINITIONS_def issue_codes)
  have "issues (analyzePage L load ext r baseUrl' cfg) = [createIssue MISSING_OG_TAGS]"
    using assms t d
    by (simp add: analyzePage_def analyzeMarkup_def Let_def pushIf_def basicPageData_def falsy_def)
  with w show ?thesis by simp
qed

lemma acmeRobots_doc:
  "exampleLoad (html (fetched ''https://a.com/'' 200 acmeRobotsHtml [])) =
     acmeDoc\<lparr>meta_robots := Some ''index''\<rparr>"
  by (simp add: example_defs)

lemma acmeRobots_ratio:
  "10 \<le> calculateTextToHtmlRatio exampleText (html (fetched ''https://a.com/'' 200 acmeRobotsHtml []))"
  by (simp add: calculateTextToHtmlRatio_def example_defs)

theorem scenario_og_only_witness:
  "length (trim (title_text (exampleLoad (html (fetched ''https://a.com/'' 200 acmeRobotsHtml []))))) = 45
   \<and> map code (issues (analyzePage exampleLib exampleLoad exampleText
        (fetched ''https://a.com/'' 200 acmeRobotsHtml []) ''https://a.com'' DEFAULT_ANALYZER_CONFIG))
      = [MISSING_OG_TAGS]"
proof -
  let ?r = "fetched ''https://a.com/'' 200 acmeRobotsHtml []"
  have doc: "exampleLoad (html ?r) = acmeDoc\<lparr>meta_robots := Some ''index''\<rparr>"
    by (rule acmeRobots_doc)
  have h1: "html ?r \<noteq> []"
    by (simp add: fetched_def acmeRobotsHtml_def)
  have h2: "length (trim (title_text (exampleLoad (html ?r)))) = 45"
    unfolding doc by (simp add: acmeDoc_def emptyDoc_def acmeTitle_def trim_def isWhiteSpace_def)
  have h3: "meta_description (exampleLoad (html ?r)) = Some acmeDescription"
    unfolding doc by (simp add: acmeDoc_def emptyDoc_def)
  have h4: "length (trim acmeDescription) = 100"
    by (simp add: acmeDescription_def trim_def isWhiteSpace_def)
  have h5: "length (h1_texts (exampleLoad (html ?r))) = 1"
    unfolding doc by (simp add: acmeDoc_def emptyDoc_def)
  have h6: "\<not> falsy (link_canonical (exampleLoad (html ?r)))"
    "\<not> falsy (meta_viewport (exampleLoad (html ?r)))"
    "\<not> falsy (meta_robots (exampleLoad (html ?r)))"
    "falsy (og_title (exampleLoad (html ?r)))"
    "falsy (og_description (exampleLoad (html ?r)))"
    "falsy (og_image (exampleLoad (html ?r)))"
    "img_alts (exampleLoad (html ?r)) = []"
    unfolding doc by (simp_all add: acmeDoc_def emptyDoc_def falsy_def orNull_def)
  have h7: "CrawlResult.statusCode ?r < 500" "length (redirectChain ?r) < 3"
    "CrawlResult.responseTime ?r \<le> 3000"
    by (simp_all add: fetched_def)
  have h8: "length (html ?r) \<le> 3 * 1024 * 1024"
    by (simp add: fetched_def acmeRobotsHtml_def)
  have "issues (analyzePage exampleLib exampleLoad exampleText ?r ''https://a.com''
      DEFAULT_ANALYZER_CONFIG) = [createIssue MISSING_OG_TAGS]"
    using scenario_og_only[where r = "?r" and load = exampleLoad and ext = exampleText
        and d = acmeDescription and L = exampleLib and baseUrl' = "''https://a.com''"
        and cfg = DEFAULT_ANALYZER_CONFIG]
      h1 h2 h3 h4 h5 h6 h7 acmeRobots_ratio h8
    by simp
  then show ?thesis
    using h2 by (simp add: createIssue_def ISSUE_DEFINITIONS_def issue_codes)
qed

text \<open>
  Claim C4 as stated fails: the page of the scenario without a robots meta tag gets
  \<open>missing_robots_meta\<close> too.
\<close>

theorem scenario_counterexample:
  "length (trim (title_text (exampleLoad acmeHtml))) = 45
   \<and> map_option (\<lambda>d. length (trim d)) (meta_description (exampleLoad acmeHtml)) = Some 100
   \<and> length (h1_texts (exampleLoad acmeHtml)) = 1
   \<and> link_canonical (exampleLoad acmeHtml) = Some ''https://a.com/''
   \<and> meta_viewport (exampleLoad acmeHtml) = Some ''width=device-width''
   \<and> og_title (exampleLoad acmeHtml) = None
   \<and> og_description (exampleLoad acmeHtml) = None
   \<and> og_image (exampleLoad acmeHtml) = None
   \<and> img_alts (exampleLoad acmeHtml) = []
   \<and> map code (issues (analyzePage exampleLib exampleLoad exampleText
        (fetched ''https://a.com/'' 200 acmeHtml []) ''https://a.com'' DEFAULT_ANALYZER_CONFIG))
      = [MISSING_ROBOTS_META, MISSING_OG_TAGS]"
  by (simp add: analyzePage_def analyzeMarkup_def Let_def pushIf_def basicPageData_def falsy_def
      orNull_def trim_def isWhiteSpace_def calculateTextToHtmlRatio_def createIssue_def
      ISSUE_DEFINITIONS_def issue_codes example_defs)

subsection \<open>Links of a page\<close>

lemma classifyLink_sound:
  assumes "\<forall>a \<in> set (fst links). isInternalLink L b a"
    and "\<forall>a \<in> set (snd links). \<not> isInternalLink L b a \<and> startsWith a ''http''"
  shows "(\<forall>a \<in> set (fst (classifyLink L b u links h)). isInternalLink L b a)
       \<and> (\<forall>a \<in> set (snd (classifyLink L b u links h)).
             \<not> isInternalLink L b a \<and> startsWith a ''http'')"
  using assms by (auto simp: classifyLink_def Let_def)

lemma foldl_classifyLink_sound:
  assumes "\<forall>a \<in> set (fst links). isInternalLink L b a"
    and "\<forall>a \<in> set (snd links). \<not> isInternalLink L b a \<and> startsWith a ''http''"
  shows "(\<forall>a \<in> set (fst (foldl (classifyLink L b u) links hs)). isInternalLink L b a)
       \<and> (\<forall>a \<in> set (snd (foldl (classifyLink L b u) links hs)).
             \<not> isInternalLink L b a \<and> startsWith a ''http'')"
  using assms
proof (induction hs arbitrary: links)
  case Nil
  then show ?case by simp
next
  case (Cons h hs)
  have "(\<forall>a \<in> set (fst (classifyLink L b u links h)). isInternalLink L b a)
       \<and> (\<forall>a \<in> set (snd (classifyLink L b u links h)).
             \<not> isInternalLink L b a \<and> startsWith a ''http'')"
    using Cons.prems by (rule classifyLink_sound)
  then show ?case
    using Cons.IH[of "classifyLink L b u links h"] by simp
qed

lemma analyzePage_links:
  "internalLinks (analyzePage L load ext r b cfg) =
     (if html r = [] then []
      else fst (foldl (classifyLink L b (CrawlResult.url r)) ([], []) (a_hrefs (load (html r)))))"
  "externalLinks (analyzePage L load ext r b cfg) =
     (if html r = [] then []
      else snd (foldl (classifyLink L b (CrawlResult.url r)) ([], []) (a_hrefs (load (html r)))))"
  by (simp_all add: analyzePage_def analyzeMarkup_def Let_def basicPageData_def)

text \<open>
  Claim C10, as amended.  An absolute URL that is not on the base URL's host
  (\<open>isInternalLink\<close> is false) and does not begin with \<open>http\<close>, as the URLs of \<open>mailto:\<close>,
  \<open>tel:\<close> and \<open>javascript:\<close> links are, is in neither \<open>internalLinks\<close> nor \<open>externalLinks\<close>.
\<close>

theorem links_neither_internal_nor_http:
  assumes "\<not> isInternalLink L baseUrl' a" and "\<not> startsWith a ''http''"
  shows "a \<notin> set (internalLinks (analyzePage L load ext r baseUrl' cfg))
       \<and> a \<notin> set (externalLinks (analyzePage L load ext r baseUrl' cfg))"
proof -
  have "(\<forall>a \<in> set (fst (foldl (classifyLink L baseUrl' (CrawlResult.url r)) ([], [])
            (a_hrefs (load (html r))))). isInternalLink L baseUrl' a)
       \<and> (\<forall>a \<in> set (snd (foldl (classifyLink L baseUrl' (CrawlResult.url r)) ([], [])
            (a_hrefs (load (html r))))). \<not> isInternalLink L baseUrl' a \<and> startsWith a ''http'')"
    by (rule foldl_classifyLink_sound) simp_all
  with assms show ?thesis
    by (auto simp: analyzePage_links)
qed

theorem links_neither_internal_nor_http_witness:
  "\<not> isInternalLink exampleLib ''https://a.com'' ''mailto:me@a.com''
   \<and> \<not> startsWith ''mailto:me@a.com'' ''http''
   \<and> a_hrefs (exampleLoad linksHtml) = [''mailto:me@a.com'', ''https://a.com/x'', ''https://b.org/'']
   \<and> internalLinks (analyzePage exampleLib exampleLoad exampleText
        (fetched ''https://a.com/'' 200 linksHtml []) ''https://a.com'' DEFAULT_ANALYZER_CONFIG)
      = [''https://a.com/x'']
   \<and> externalLinks (analyzePage exampleLib exampleLoad exampleText
        (fetched ''https://a.com/'' 200 linksHtml []) ''https://a.com'' DEFAULT_ANALYZER_CONFIG)
      = [''https://b.org/'']
   \<and> ''mailto:me@a.com'' \<notin> set (internalLinks (analyzePage exampleLib exampleLoad exampleText
        (fetched ''https://a.com/'' 200 linksHtml []) ''https://a.com'' DEFAULT_ANALYZER_CONFIG))
   \<and> ''mailto:me@a.com'' \<notin> set (externalLinks (analyzePage exampleLib exampleLoad exampleText
        (fetched ''https://a.com/'' 200 linksHtml []) ''https://a.com'' DEFAULT_ANALYZER_CONFIG))"
proof -
  have h1: "\<not> isInternalLink exampleLib ''https://a.com'' ''mailto:me@a.com''"
    by (simp add: isInternalLink_def example_defs)
  have h2: "\<not> startsWith ''mailto:me@a.com'' ''http''"
    by (simp add: startsWith_def)
  have l: "a_hrefs (exampleLoad linksHtml) = [''mailto:me@a.com'', ''https://a.com/x'', ''https://b.org/'']"
    by (simp add: example_defs)
  have i: "internalLinks (analyzePage exampleLib exampleLoad exampleText
        (fetched ''https://a.com/'' 200 linksHtml []) ''https://a.com'' DEFAULT_ANALYZER_CONFIG)
      = [''https://a.com/x'']"
    by (simp add: analyzePage_links classifyLink_def resolveUrl_def isInternalLink_def
      startsWith_def example_defs Let_def)
  have e: "externalLinks (analyzePage exampleLib exampleLoad exampleText
        (fetched ''https://a.com/'' 200 linksHtml []) ''https://a.com'' DEFAULT_ANALYZER_CONFIG)
      = [''https://b.org/'']"
    by (simp add: analyzePage_links classifyLink_def resolveUrl_def isInternalLink_def
      startsWith_def example_defs Let_def)
  from links_neither_internal_nor_http[OF h1 h2, of exampleLoad exampleText
      "fetched ''https://a.com/'' 200 linksHtml []" DEFAULT_ANALYZER_CONFIG] h1 h2 l i e
  show ?thesis by blast
qed

text \<open>
  Claim C10 as stated fails: an \<open>ftp:\<close> link to the site's own host is an internal link.
\<close>

theorem links_counterexample:
  "map_option protocol
     (URL_new exampleLib (resolveUrl exampleLib ''https://a.com/'' ''ftp://a.com/f'')) = Some ''ftp:''
   \<and> a_hrefs (exampleLoad ftpHtml) = [''ftp://a.com/f'']
   \<and> internalLinks (analyzePage exampleLib exampleLoad exampleText
        (fetched ''https://a.com/'' 200 ftpHtml []) ''https://a.com'' DEFAULT_ANALYZER_CONFIG)
      = [''ftp://a.com/f'']"
  by (simp add: analyzePage_links classifyLink_def resolveUrl_def isInternalLink_def
      example_defs Let_def)

subsection \<open>URL validation\<close>

text \<open>What \<open>validateUrl\<close> does reject, whatever the \<open>URL\<close> class makes of the input.\<close>

lemma validateUrl_rejects:
  assumes "URL_new L u = None
     \<or> (\<exists>parsed. URL_new L u = Some parsed \<and>
          (protocol parsed \<noteq> ''http:'' \<and> protocol parsed \<noteq> ''https:''
           \<or> toLowerCase (hostname parsed) = ''localhost''
           \<or> toLowerCase (hostname parsed) = ''127.0.0.1''
           \<or> startsWith (toLowerCase (hostname parsed)) ''192.168.''
           \<or> startsWith (toLowerCase (hostname parsed)) ''10.''
           \<or> startsWith (toLowerCase (hostname parsed)) ''172.16.''
           \<or> endsWith (toLowerCase (hostname parsed)) ''.local''
           \<or> \<not> includes_str (toLowerCase (hostname parsed)) ''.''))"
  shows "\<not> valid (validateUrl L u)"
proof (cases "URL_new L u")
  case None
  then show ?thesis
    by (simp add: validateUrl_def)
next
  case (Some parsed)
  with assms have "protocol parsed \<noteq> ''http:'' \<and> protocol parsed \<noteq> ''https:''
           \<or> toLowerCase (hostname parsed) = ''localhost''
           \<or> toLowerCase (hostname parsed) = ''127.0.0.1''
           \<or> startsWith (toLowerCase (hostname parsed)) ''192.168.''
           \<or> startsWith (toLowerCase (hostname parsed)) ''10.''
           \<or> startsWith (toLowerCase (hostname parsed)) ''172.16.''
           \<or> endsWith (toLowerCase (hostname parsed)) ''.local''
           \<or> \<not> includes_str (toLowerCase (hostname parsed)) ''.''"
    by simp
  then show ?thesis
    unfolding validateUrl_def Some Let_def by (auto simp del: includes_str.simps)
qed

text \<open>
  Claim C8 asks \<open>validateUrl\<close> to reject every private-network and loopback host.  The host
  172.20.0.1 is in the private range 172.16.0.0/12 and the host 127.0.0.2 in the loopback range
  127.0.0.0/8, and \<open>validateUrl\<close> accepts both.
\<close>

theorem validateUrl_private_address:
  "validateUrl exampleLib (normalizeUrl ''http://172.20.0.1/'') = \<lparr>valid = True, error = None\<rparr>
   \<and> validateUrl exampleLib (normalizeUrl ''http://127.0.0.2/'') = \<lparr>valid = True, error = None\<rparr>"
  by (simp add: validateUrl_def normalizeUrl_def exampleLib_def exampleUrls_def mkURL_def trim_def
      isWhiteSpace_def startsWith_def endsWith_def slice_0_minus1_def toLowerCase_def
      toLowerChar_def Let_def)

subsection \<open>The crawl\<close>

lemma enqueueLink_keeps:
  "results (enqueueLink L d st l) = results st"
  "pending (enqueueLink L d st l) = pending st"
  "visited (enqueueLink L d st l) = visited st"
  by (simp_all add: enqueueLink_def)

lemma foldl_enqueueLink_keeps:
  "results (foldl (enqueueLink L d) st ls) = results st
   \<and> pending (foldl (enqueueLink L d) st ls) = pending st
   \<and> visited (foldl (enqueueLink L d) st ls) = visited st"
  by (induction ls arbitrary: st) (simp_all add: enqueueLink_keeps)

lemma crawlPage_settled_effect:
  "\<exists>r. CrawlResult.url r = u
       \<and> results (crawlPage_settled L load st u d out) = results st @ [r]
       \<and> pending (crawlPage_settled L load st u d out) = pending st
       \<and> visited (crawlPage_settled L load st u d out) = visited st"
  by (cases out) (auto simp: crawlPage_settled_def Let_def foldl_enqueueLink_keeps split: option.splits)

lemma tracked_settle:
  assumes "i < length (pending st)"
  shows "\<exists>r. tracked (applyEvent L load fetch st (Settle i)) =
           map CrawlResult.url (results st) @ [fst (pending st ! i)] @
           map fst (take i (pending st) @ drop (Suc i) (pending st))
       \<and> results (applyEvent L load fetch st (Settle i)) = results st @ [r]
       \<and> visited (applyEvent L load fetch st (Settle i)) = visited st"
proof -
  obtain r where r: "CrawlResult.url r = fst (pending st ! i)"
    "results (crawlPage_settled L load st (fst (pending st ! i)) (snd (pending st ! i))
        (fetch (fst (pending st ! i)))) = results st @ [r]"
    "pending (crawlPage_settled L load st (fst (pending st ! i)) (snd (pending st ! i))
        (fetch (fst (pending st ! i)))) = pending st"
    "visited (crawlPage_settled L load st (fst (pending st ! i)) (snd (pending st ! i))
        (fetch (fst (pending st ! i)))) = visited st"
    using crawlPage_settled_effect by blast
  show ?thesis
    using assms r by (simp add: applyEvent_def tracked_def Let_def)
qed

lemma applyEvent_inv:
  assumes "crawl_inv L st"
  shows "crawl_inv L (applyEvent L load fetch st ev)"
proof (cases ev)
  case Stop
  then show ?thesis
    using assms by (simp add: applyEvent_def crawl_inv_def tracked_def)
next
  case (Settle i)
  show ?thesis
  proof (cases "i < length (pending st)")
    case False
    then show ?thesis
      using assms Settle by (simp add: applyEvent_def)
  next
    case True
    let ?P = "map fst (pending st)"
    have "i < length ?P"
      using True by simp
    from id_take_nth_drop[OF this] have split: "?P = take i ?P @ [?P ! i] @ drop (Suc i) ?P"
      by simp
    obtain r where t: "tracked (applyEvent L load fetch st (Settle i)) =
           map CrawlResult.url (results st) @ [fst (pending st ! i)] @
           map fst (take i (pending st) @ drop (Suc i) (pending st))"
      and v: "visited (applyEvent L load fetch st (Settle i)) = visited st"
      using tracked_settle[OF True] by blast
    have t': "tracked (applyEvent L load fetch st (Settle i)) =
        map CrawlResult.url (results st) @ [?P ! i] @ take i ?P @ drop (Suc i) ?P"
      using t True by (simp add: take_map drop_map)
    have old: "tracked st = map CrawlResult.url (results st) @ take i ?P @ [?P ! i] @ drop (Suc i) ?P"
      using split by (simp add: tracked_def)
    have "distinct (tracked (applyEvent L load fetch st (Settle i)))"
      using assms unfolding crawl_inv_def old t' by auto
    moreover have "set (tracked (applyEvent L load fetch st (Settle i))) = set (tracked st)"
      unfolding old t' by auto
    moreover have "list_all (\<lambda>u. sanitizeUrlForCrawl L u = u)
        (tracked (applyEvent L load fetch st (Settle i)))"
      using assms unfolding crawl_inv_def old t' by auto
    ultimately show ?thesis
      using assms Settle v by (simp add: crawl_inv_def)
  qed
qed

lemma foldl_applyEvent_inv:
  "crawl_inv L st \<Longrightarrow> crawl_inv L (foldl (applyEvent L load fetch) st evs)"
  by (induction evs arbitrary: st) (simp_all add: applyEvent_inv)

lemma launch_inv:
  "sanitize_idempotent L \<Longrightarrow> crawl_inv L st \<Longrightarrow> crawl_inv L (launch L st)"
proof (induction L st rule: launch.induct)
  case (1 L st)
  show ?case
  proof (cases "queue st \<noteq> [] \<and> activeRequests st < maxConcurrentRequests (config st) \<and>
      int (length (results st)) < maxPages (config st) \<and> \<not> stopped st")
    case False
    then show ?thesis
      using "1.prems"(2) by (subst launch.simps) auto
  next
    case True
    let ?item = "hd (queue st)"
    let ?st1 = "st\<lparr>queue := tl (queue st)\<rparr>"
    let ?n = "sanitizeUrlForCrawl L (fst ?item)"
    let ?st2 = "?st1\<lparr>visited := insert ?n (visited ?st1),
                     activeRequests := activeRequests ?st1 + 1,
                     pending := pending ?st1 @ [(?n, snd ?item)]\<rparr>"
    have inv1: "crawl_inv L ?st1"
      using "1.prems"(2) by (simp add: crawl_inv_def tracked_def)
    have inv2: "?n \<notin> visited ?st1 \<Longrightarrow> crawl_inv L ?st2"
    proof -
      assume nv: "?n \<notin> visited ?st1"
      have "sanitizeUrlForCrawl L ?n = ?n"
        using "1.prems"(1) by (simp add: sanitize_idempotent_def)
      then show ?thesis
        using "1.prems"(2) nv by (auto simp: crawl_inv_def tracked_def)
    qed
    show ?thesis
    proof (cases "?n \<in> visited ?st1")
      case v: True
      have "launch L st = launch L ?st1"
        using True v by (subst launch.simps) (simp add: Let_def)
      then show ?thesis
        using "1.IH"(1)[OF True refl refl refl v "1.prems"(1) inv1] by simp
    next
      case v: False
      show ?thesis
      proof (cases "snd ?item > maxDepth (config ?st1)")
        case d: True
        have "launch L st = launch L ?st1"
          using True v d by (subst launch.simps) (simp add: Let_def)
        then show ?thesis
          using "1.IH"(2)[OF True refl refl refl v d "1.prems"(1) inv1] by simp
      next
        case d: False
        show ?thesis
        proof (cases "isAllowedByRobots ?st1 ?n")
          case a: False
          have "launch L st = launch L ?st1"
            using True v d a by (subst launch.simps) (simp add: Let_def)
          then show ?thesis
            using "1.IH"(3)[OF True refl refl refl v d a "1.prems"(1) inv1] by simp
        next
          case a: True
          have "launch L st = launch L ?st2"
            using True v d a by (subst launch.simps) (simp add: Let_def)
          moreover have "\<not> \<not> isAllowedByRobots ?st1 ?n"
            using a by simp
          ultimately show ?thesis
            using "1.IH"(4)[OF True refl refl refl v d _ "1.prems"(1) inv2[OF v]] by simp
        qed
      qed
    qed
  qed
qed

lemma processQueue_loop_inv:
  assumes run: "processQueue_loop L load fetch waits st = Some y"
  shows "sanitize_idempotent L \<longrightarrow> crawl_inv L st \<longrightarrow> crawl_inv L (fst y)"
proof (rule processQueue_loop.raw_induct[where P = "\<lambda>L load fetch waits st y.
    sanitize_idempotent L \<longrightarrow> crawl_inv L st \<longrightarrow> crawl_inv L (fst y)", OF _ run])
  fix f :: "UrlLib \<Rightarrow> (string \<Rightarrow> CheerioDoc) \<Rightarrow> (string \<Rightarrow> AxiosOutcome) \<Rightarrow> Event list list \<Rightarrow> Crawler
     \<Rightarrow> (Crawler \<times> Event list list) option"
  fix L load fetch waits st y
  assume IH: "\<And>L load fetch waits st y. f L load fetch waits st = Some y \<Longrightarrow>
    sanitize_idempotent L \<longrightarrow> crawl_inv L st \<longrightarrow> crawl_inv L (fst y)"
  assume body: "(if (queue st \<noteq> [] \<or> 0 < activeRequests st) \<and> \<not> stopped st
      then let st1 = launch L st
           in if 0 < activeRequests st1
              then case waits of [] \<Rightarrow> None
                   | evs # waits' \<Rightarrow> f L load fetch waits' (foldl (applyEvent L load fetch) st1 evs)
              else if queue st1 = [] then Some (st1, waits)
                   else f L load fetch waits st1
      else Some (st, waits)) = Some y"
  show "sanitize_idempotent L \<longrightarrow> crawl_inv L st \<longrightarrow> crawl_inv L (fst y)"
  proof (intro impI)
    assume idem: "sanitize_idempotent L" and inv: "crawl_inv L st"
    have l: "crawl_inv L (launch L st)"
      using idem inv by (rule launch_inv)
    show "crawl_inv L (fst y)"
    proof (cases "(queue st \<noteq> [] \<or> 0 < activeRequests st) \<and> \<not> stopped st")
      case False
      with body inv show ?thesis by auto
    next
      case run: True
      show ?thesis
      proof (cases "0 < activeRequests (launch L st)")
        case True
        with body run obtain evs waits' where w: "waits = evs # waits'"
          and r: "f L load fetch waits' (foldl (applyEvent L load fetch) (launch L st) evs) = Some y"
          by (auto simp: Let_def split: list.splits)
        have "crawl_inv L (foldl (applyEvent L load fetch) (launch L st) evs)"
          using l by (rule foldl_applyEvent_inv)
        with IH[OF r] idem show ?thesis by simp
      next
        case False
        show ?thesis
        proof (cases "queue (launch L st) = []")
          case True
          with body run False l show ?thesis by (auto simp: Let_def)
        next
          case q: False
          with body run False have "f L load fetch waits (launch L st) = Some y"
            by (simp add: Let_def split: if_splits)
          from IH[OF this] idem l show ?thesis by simp
        qed
      qed
    qed
  qed
qed

lemma settleAll_inv: "crawl_inv L st \<Longrightarrow> crawl_inv L (settleAll L load fetch waits st)"
  by (simp add: settleAll_def Let_def foldl_applyEvent_inv)

lemma crawl_inv_results:
  assumes "crawl_inv L st"
  shows "distinct (map (\<lambda>r. sanitizeUrlForCrawl L (CrawlResult.url r)) (results st))"
proof -
  from assms have d: "distinct (map CrawlResult.url (results st))"
    and s: "\<forall>r \<in> set (results st). sanitizeUrlForCrawl L (CrawlResult.url r) = CrawlResult.url r"
    by (auto simp: crawl_inv_def tracked_def list_all_iff)
  from s have e: "map (\<lambda>r. sanitizeUrlForCrawl L (CrawlResult.url r)) (results st) =
      map CrawlResult.url (results st)"
    by simp
  show ?thesis
    unfolding e by (rule d)
qed

text \<open>
  Claim C7.  When \<open>crawl\<close> returns, no two of its results have the same sanitized URL, whatever
  the site, the order in which the requests settle and the moment \<open>stop()\<close> is called; the
  platform's \<open>URL\<close> class is assumed to parse what it has serialised.
\<close>

theorem crawl_never_revisits:
  assumes "sanitize_idempotent L"
    and "crawl L load fetch robots cfg waits startUrl = Some rs"
  shows "distinct (map (\<lambda>r. sanitizeUrlForCrawl L (CrawlResult.url r)) rs)"
proof -
  let ?st0 = "\<lparr>config = cfg, visited = {}, queue = [(startUrl, 0)], results = [],
             robotsTxt = (if respectRobotsTxt cfg then robots else None),
             baseUrl = startUrl, baseDomain = getBaseDomain L startUrl,
             activeRequests = 0, stopped = False, pending = []\<rparr>"
  have init: "crawl_inv L ?st0"
    by (simp add: crawl_inv_def tracked_def)
  from assms(2) obtain st1 waits' where
    loop: "processQueue_loop L load fetch waits ?st0 = Some (st1, waits')"
    and rs: "rs = results (settleAll L load fetch waits' st1)"
    by (auto simp: crawl_def processQueue_def Let_def split: option.splits)
  from processQueue_loop_inv[OF loop] assms(1) init have "crawl_inv L st1"
    by simp
  then have "crawl_inv L (settleAll L load fetch waits' st1)"
    by (rule settleAll_inv)
  then show ?thesis
    unfolding rs by (rule crawl_inv_results)
qed

lemma crawl_example:
  "map_option (map CrawlResult.url)
     (crawl exampleLib exampleLoad exampleFetch None (DEFAULT_CONFIG\<lparr>maxPages := 2\<rparr>)
        [[Settle 0], [Settle 0, Settle 0]] ''https://a.com'')
   = Some [''https://a.com/'', ''https://a.com/x'', ''https://a.com/y'']"
  by (simp add: crawl_def processQueue_def processQueue_loop.simps launch.simps settleAll_def
      applyEvent_def crawlPage_settled_def enqueueLink_def extractLinks_def isAllowedByRobots_def
      sanitizeUrlForCrawl_def shouldCrawlUrl_def isInternalLink_def resolveUrl_def
      getBaseDomain_def searchParams_delete_def paramsToRemove_def skipExtensions_def
      toLowerCase_def toLowerChar_def endsWith_def startsWith_def DEFAULT_CONFIG_def
      exampleFetch_def example_defs Let_def)

lemma exampleLib_sanitize:
  "sanitizeUrlForCrawl exampleLib u =
     (if u = ''https://a.com'' \<or> u = ''https://A.com'' then ''https://a.com/''
      else if u = ''http://172.20.0.1'' then ''http://172.20.0.1/''
      else if u = ''http://127.0.0.2'' then ''http://127.0.0.2/''
      else u)"
  by (simp add: sanitizeUrlForCrawl_def searchParams_delete_def paramsToRemove_def example_defs)

lemma exampleLib_idempotent: "sanitize_idempotent exampleLib"
  by (simp add: sanitize_idempotent_def exampleLib_sanitize)

theorem crawl_never_revisits_witness:
  "sanitize_idempotent exampleLib
   \<and> map_option (map CrawlResult.url)
       (crawl exampleLib exampleLoad exampleFetch None (DEFAULT_CONFIG\<lparr>maxPages := 2\<rparr>)
          [[Settle 0], [Settle 0, Settle 0]] ''https://a.com'')
     = Some [''https://a.com/'', ''https://a.com/x'', ''https://a.com/y'']
   \<and> distinct (map (\<lambda>r. sanitizeUrlForCrawl exampleLib (CrawlResult.url r))
       (the (crawl exampleLib exampleLoad exampleFetch None (DEFAULT_CONFIG\<lparr>maxPages := 2\<rparr>)
          [[Settle 0], [Settle 0, Settle 0]] ''https://a.com'')))"
proof -
  obtain rs where rs: "crawl exampleLib exampleLoad exampleFetch None
      (DEFAULT_CONFIG\<lparr>maxPages := 2\<rparr>) [[Settle 0], [Settle 0, Settle 0]] ''https://a.com'' = Some rs"
    using crawl_example by (cases "crawl exampleLib exampleLoad exampleFetch None
      (DEFAULT_CONFIG\<lparr>maxPages := 2\<rparr>) [[Settle 0], [Settle 0, Settle 0]] ''https://a.com''") auto
  from crawl_never_revisits[OF exampleLib_idempotent rs] rs crawl_example exampleLib_idempotent
  show ?thesis by simp
qed

text \<open>
  Claim C1 asks for at most \<open>maxPages\<close> results.  With \<open>maxPages = 2\<close> and the default five
  concurrent requests, on a homepage with two internal links, the crawl returns three results:
  both links are started while one result is in, and both are recorded.
\<close>

theorem crawl_exceeds_maxPages:
  "maxPages (DEFAULT_CONFIG\<lparr>maxPages := 2\<rparr>) = 2
   \<and> map_option length
       (crawl exampleLib exampleLoad exampleFetch None (DEFAULT_CONFIG\<lparr>maxPages := 2\<rparr>)
          [[Settle 0], [Settle 0, Settle 0]] ''https://a.com'') = Some 3"
proof -
  obtain rs where rs: "crawl exampleLib exampleLoad exampleFetch None
      (DEFAULT_CONFIG\<lparr>maxPages := 2\<rparr>) [[Settle 0], [Settle 0, Settle 0]] ''https://a.com'' = Some rs"
    and urls: "map CrawlResult.url rs = [''https://a.com/'', ''https://a.com/x'', ''https://a.com/y'']"
    using crawl_example by auto
  have "length (map CrawlResult.url rs) = 3"
    unfolding urls by simp
  then show ?thesis
    using rs by simp
qed

end
